theory Spec2Isabelle
  imports Complex_Main "HOL-Library.Multiset"
begin

section \<open>Errors\<close>

text \<open>
  The service throws \<^verbatim>\<open>system.mkError(message, context)\<close>, a plain \<^verbatim>\<open>Error\<close> whose text
  is the message; one constructor stands for each message the modelled methods use. The
  last three are failures of the JavaScript runtime and of remote collaborators.
\<close>

datatype error =
    MissingParameter string
  | MissingRefreshToken string
  | MalformedId string
  | InboxNotFound
  | EmailNotFoundInInbox string
  | NoJsonObject
  | UnparsableResponse
  | InvalidResponseFormat
  | TypeError
  | ReferenceError string
  | RemoteFailure string


section \<open>Strings\<close>

text \<open>
  JavaScript strings are modelled as \<^typ>\<open>string\<close>. \<^verbatim>\<open>s.split(c)\<close> on a one-character
  separator always yields at least one part.
\<close>

fun split_on :: "char \<Rightarrow> string \<Rightarrow> string list" where
  "split_on c [] = [[]]"
| "split_on c (x # xs) =
     (if x = c then [] # split_on c xs
      else (case split_on c xs of [] \<Rightarrow> [[x]] | p # ps \<Rightarrow> (x # p) # ps))"

section \<open>Composite ID codec\<close>

record id_parts =
  userId :: string
  accountId :: string
  providerId :: string

text \<open>\<^verbatim>\<open>composeId\<close>: the first 8 characters of the service's user ID, the account ID and the
  provider's message ID, joined by \<^verbatim>\<open>#\<close>. The first argument is \<^verbatim>\<open>this._userId\<close>.\<close>

definition composeId :: "string \<Rightarrow> string \<Rightarrow> string \<Rightarrow> string" where
  "composeId uid aid pid = take 8 uid @ ''#'' @ aid @ ''#'' @ pid"

text \<open>\<^verbatim>\<open>decomposeId\<close>: split on \<^verbatim>\<open>#\<close>; fewer than 3 parts is the error \<^verbatim>\<open>Malformed ID\<close>,
  otherwise the first three parts are returned (further parts are dropped).\<close>

definition decomposeId :: "string \<Rightarrow> error + id_parts" where
  "decomposeId i =
     (case split_on CHR ''#'' i of
        u # a # p # rest \<Rightarrow> Inr \<lparr>userId = u, accountId = a, providerId = p\<rparr>
      | _ \<Rightarrow> Inl (MalformedId i))"

section \<open>More on strings: what the scoring passes use\<close>

text \<open>\<^verbatim>\<open>toLowerCase\<close>, on the ASCII letters (other characters are left as they are).\<close>

definition toLowerChar :: "char \<Rightarrow> char" where
  "toLowerChar c =
     (case map_of (zip ''ABCDEFGHIJKLMNOPQRSTUVWXYZ'' ''abcdefghijklmnopqrstuvwxyz'') c of
        None \<Rightarrow> c | Some l \<Rightarrow> l)"

definition toLowerCase :: "string \<Rightarrow> string" where
  "toLowerCase s = map toLowerChar s"

fun starts_with :: "string \<Rightarrow> string \<Rightarrow> bool" where
  "starts_with s [] = True"
| "starts_with [] (k # ks) = False"
| "starts_with (c # cs) (k # ks) = (c = k \<and> starts_with cs ks)"

text \<open>\<^verbatim>\<open>s.includes(k)\<close>: \<open>k\<close> occurs in \<open>s\<close> as a contiguous substring.\<close>

fun includes_str :: "string \<Rightarrow> string \<Rightarrow> bool" where
  "includes_str [] k = (k = [])"
| "includes_str (c # cs) k = (starts_with (c # cs) k \<or> includes_str cs k)"

text \<open>
  An optional string field is \<^typ>\<open>string option\<close>: \<open>None\<close> is \<^verbatim>\<open>null\<close> or
  \<^verbatim>\<open>undefined\<close>. JavaScript takes both, and the empty string, as false.
\<close>

definition truthy :: "string option \<Rightarrow> bool" where
  "truthy s = (case s of None \<Rightarrow> False | Some t \<Rightarrow> t \<noteq> [])"

definition orEmpty :: "string option \<Rightarrow> string" where
  "orEmpty s = (case s of None \<Rightarrow> [] | Some t \<Rightarrow> t)"

text \<open>\<^verbatim>\<open>field && field.toLowerCase().includes(keyword)\<close>\<close>

definition fieldHas :: "string option \<Rightarrow> string \<Rightarrow> bool" where
  "fieldHas field keyword = (truthy field \<and> includes_str (toLowerCase (orEmpty field)) keyword)"

text \<open>
  The first match of the regular expression \<^verbatim>\<open>/<([^>]+)>/\<close>, its group: the leftmost
  \<^verbatim>\<open><\<close> that is followed by at least one character other than \<^verbatim>\<open>>\<close> and then
  by \<^verbatim>\<open>>\<close>.
\<close>

fun angle_group :: "string \<Rightarrow> string option" where
  "angle_group [] = None"
| "angle_group (c # cs) =
     (if c = CHR ''<''
         \<and> takeWhile (\<lambda>x. x \<noteq> CHR ''>'') cs \<noteq> []
         \<and> dropWhile (\<lambda>x. x \<noteq> CHR ''>'') cs \<noteq> []
      then Some (takeWhile (\<lambda>x. x \<noteq> CHR ''>'') cs)
      else angle_group cs)"

text \<open>\<^verbatim>\<open>s.match(/<([^>]+)>/)?.[1] || s\<close>\<close>

definition addressOf :: "string \<Rightarrow> string" where
  "addressOf s = (case angle_group s of Some g \<Rightarrow> g | None \<Rightarrow> s)"

text \<open>\<^verbatim>\<open>s.split('@')[1]\<close>: the second part, \<^verbatim>\<open>undefined\<close> when there is no \<^verbatim>\<open>@\<close>.\<close>

definition domainPart :: "string \<Rightarrow> string option" where
  "domainPart s = (case split_on CHR ''@'' s of p # d # r \<Rightarrow> Some d | _ \<Rightarrow> None)"

section \<open>Time\<close>

text \<open>
  Instants are milliseconds since the epoch, as \<^verbatim>\<open>Date.getTime()\<close> gives them; an ISO
  time stamp is modelled by its instant. \<open>now\<close> is what \<^verbatim>\<open>new Date()\<close> reads during the
  call, and \<open>parseDate\<close> is \<^verbatim>\<open>new Date(text)\<close>, \<open>None\<close> for an invalid date. Both are
  inputs of the model.
\<close>

record clock =
  now :: int
  parseDate :: "string \<Rightarrow> int option"

definition msPerDay :: int where
  "msPerDay = 1000 * 60 * 60 * 24"

section \<open>Cached messages\<close>

record attachment =
  filename :: "string option"
  att_size :: nat

record attachment_metadata =
  att_count :: nat
  types :: "string list"
  totalSize :: nat
  hasDocuments :: bool
  hasImages :: bool
  hasSpreadsheets :: bool
  hasPresentations :: bool
  hasArchives :: bool
  hasExecutables :: bool

record sentiment_metadata =
  tone :: string
  intensity :: string
  emotionalContent :: "string list"

text \<open>
  A message document of the collection \<^verbatim>\<open>k2o-mail\<close>. \<open>msg_id\<close> is the field \<^verbatim>\<open>_id\<close>,
  \<open>mail_from\<close> and \<open>mail_to\<close> are \<^verbatim>\<open>from\<close> and \<^verbatim>\<open>to\<close>. Scores are real numbers; an
  optional score is \<open>None\<close> where JavaScript has \<^verbatim>\<open>undefined\<close> or \<^verbatim>\<open>NaN\<close> (both are
  false, compare false with every number and turn to 0 under \<^verbatim>\<open>|| 0\<close>).
  \<open>importanceScore\<close> and \<open>spamScore\<close> are always numbers: the import writes 0 and the
  summarisation only accepts numbers. Provider fields that no modelled method reads
  (cc, messageId, snippet, htmlBody, link) are left out.
\<close>

record email =
  msg_id :: string
  doc_userId :: string
  doc_accountId :: string
  doc_providerId :: string
  cachedAt :: int
  date :: "string option"
  title :: "string option"
  mail_from :: "string option"
  mail_to :: "string option"
  textBody :: string
  autoSummary :: "string option"
  shortSummary :: "string option"
  actionItems :: "string list option"
  keyPeople :: "string list option"
  deadlines :: "string list option"
  importanceScore :: real
  spamScore :: real
  category :: "string option"
  sentiment :: "string option"
  enhancedAt :: "int option"
  labels :: "string list option"
  attachments :: "attachment list option"
  attachmentMetadata :: "attachment_metadata option"
  deletableScore :: "real option"
  urgencyScore :: "real option"
  priorityScore :: "real option"
  priorityLabel :: "string option"
  sentimentMetadata :: "sentiment_metadata option"
  decayFactor :: "real option"
  decayApplied :: bool

section \<open>Advanced scoring\<close>

definition urgentTerms :: "string list" where
  "urgentTerms = [''urgent'', ''immediately'', ''asap'', ''today'', ''now'', ''deadline'']"

definition hasUrgentActions :: "string list \<Rightarrow> bool" where
  "hasUrgentActions items =
     list_ex (\<lambda>item. list_ex (\<lambda>t. includes_str (toLowerCase item) t) urgentTerms) items"

text \<open>
  A deadline is imminent when it parses as a date no later than two days from now
  (\<^verbatim>\<open>tomorrow.setDate(now.getDate() + 2)\<close>, taken as 48 hours). \<^verbatim>\<open>new Date(text)\<close> does
  not throw, so the keyword branch of the source's \<^verbatim>\<open>catch\<close> is never taken; a text that
  is no date is not imminent.
\<close>

definition isImminent :: "clock \<Rightarrow> string \<Rightarrow> bool" where
  "isImminent clk deadline =
     (case parseDate clk deadline of
        Some t \<Rightarrow> t \<le> now clk + 2 * msPerDay
      | None \<Rightarrow> False)"

definition deletableCategories :: "string list" where
  "deletableCategories =
     [''promotional'', ''notification'', ''confirmation'', ''newsletter'', ''invoice'']"

definition invoiceTerms :: "string list" where
  "invoiceTerms = [''invoice'', ''receipt'', ''payment confirmation'', ''bill'', ''statement'']"

definition deletableLabels :: "string list" where
  "deletableLabels = [''Promotional'', ''Notification'', ''Confirmation'', ''Newsletter'']"

definition priorityLabelOf :: "real \<Rightarrow> string" where
  "priorityLabelOf p =
     (if p \<ge> 0.8 then ''Critical''
      else if p \<ge> 0.6 then ''High''
      else if p \<ge> 0.4 then ''Medium''
      else if p \<ge> 0.2 then ''Low''
      else ''Minimal'')"

text \<open>
  \<^verbatim>\<open>applyAdvancedScoring\<close> keeps two local accumulators, \<^verbatim>\<open>urgencyScore\<close> and
  \<^verbatim>\<open>deletableScore\<close>, and adjusts \<^verbatim>\<open>scoredEmail.importanceScore\<close> in place. Each of
  the three is a function here; the numbers are those of the source's comments.
\<close>

text \<open>The local \<^verbatim>\<open>urgencyScore\<close> after steps 1 (action items), 2 (deadlines) and 5
  (sentiment).\<close>

definition urgencyPoints :: "clock \<Rightarrow> email \<Rightarrow> real" where
  "urgencyPoints clk email =
     (let items = (case actionItems email of None \<Rightarrow> [] | Some xs \<Rightarrow> xs);
          u1 = (if items \<noteq> []
                then min (real (length items) * 0.05) 0.3
                       + (if hasUrgentActions items then 0.1 else 0)
                else 0);
          dls = (case deadlines email of None \<Rightarrow> [] | Some xs \<Rightarrow> xs);
          u2 = (if dls \<noteq> []
                then u1 + 0.2 + (if filter (isImminent clk) dls \<noteq> [] then 0.3 else 0)
                else u1)
      in if truthy (sentiment email) \<and> toLowerCase (orEmpty (sentiment email)) = ''urgent''
         then u2 + 0.3 else u2)"

text \<open>\<^verbatim>\<open>scoredEmail.importanceScore\<close> after steps 3 (sender and recipient of one domain;
  two addresses without \<^verbatim>\<open>@\<close> both have the domain \<^verbatim>\<open>undefined\<close> and count as equal)
  and 5 (sentiment). \<open>sender\<close> is the message's \<^verbatim>\<open>from\<close>.\<close>

definition adjustedImportance :: "email \<Rightarrow> string \<Rightarrow> real" where
  "adjustedImportance email sender =
     (let imp1 = (if truthy (mail_to email)
                     \<and> domainPart (addressOf sender)
                         = domainPart (addressOf (orEmpty (mail_to email)))
                  then min (importanceScore email + 0.1) 1
                  else importanceScore email);
          mood = (if truthy (sentiment email)
                  then toLowerCase (orEmpty (sentiment email)) else [])
      in if mood = ''urgent'' then min (imp1 + 0.2) 1
         else if mood = ''negative'' then min (imp1 + 0.1) 1
         else imp1)"

text \<open>The local \<^verbatim>\<open>deletableScore\<close> of step 6, before it is capped.\<close>

definition deletablePoints :: "email \<Rightarrow> real" where
  "deletablePoints email =
     (let d1 = (if truthy (category email)
                   \<and> toLowerCase (orEmpty (category email)) \<in> set deletableCategories
                then 0.3 else 0);
          d2 = (if list_ex (\<lambda>t. fieldHas (title email) t \<or> fieldHas (shortSummary email) t)
                     invoiceTerms
                then d1 + 0.35 else d1);
          matching = (case labels email of
                        None \<Rightarrow> []
                      | Some ls \<Rightarrow> filter (\<lambda>l. l \<in> set deletableLabels) ls);
          d3 = (if matching \<noteq> [] then d2 + 0.15 * real (length matching) else d2)
      in if spamScore email > 0 then d3 + spamScore email * 0.4 else d3)"

text \<open>
  The method throws on a message without \<^verbatim>\<open>_id\<close>, and \<^verbatim>\<open>scoredEmail.from.match\<close> is a
  \<^verbatim>\<open>TypeError\<close> when the message has no \<^verbatim>\<open>from\<close>. Steps 7 and 8 cap the two
  accumulators at 1, combine the priority and name its tier.
\<close>

definition applyAdvancedScoring :: "clock \<Rightarrow> email \<Rightarrow> error + email" where
  "applyAdvancedScoring clk email =
     (if msg_id email = [] then Inl (MissingParameter ''valid email object'')
      else case mail_from email of
        None \<Rightarrow> Inl TypeError
      | Some sender \<Rightarrow>
          (let importance = adjustedImportance email sender;
               deletable = min (deletablePoints email) 1;
               urgency = min (urgencyPoints clk email) 1;
               priority = max (min (0.7 * importance + 0.3 * urgency - 0.5 * deletable) 1) 0
           in Inr (email\<lparr>importanceScore := importance,
                         deletableScore := Some deletable,
                         urgencyScore := Some urgency,
                         priorityScore := Some priority,
                         priorityLabel := Some (priorityLabelOf priority)\<rparr>)))"

section \<open>Summarisation\<close>

text \<open>
  The reply of the text enrichment client comes from a remote language model and is an
  input of the model. What \<^verbatim>\<open>enhancedSummarize\<close> makes of it is one of five
  outcomes: the call is rejected; the reply holds no
  \<^verbatim>\<open>{\<close> ... \<^verbatim>\<open>}\<close>; \<^verbatim>\<open>JSON.parse\<close> throws; the parsed value fails one of the
  \<^verbatim>\<open>typeof\<close> or \<^verbatim>\<open>Array.isArray\<close> checks; or it passes them, and then it is a record of
  the nine fields (arrays are taken to hold strings, as the prompt asks).
\<close>

record ai_data =
  extendedSummary :: string
  ai_shortSummary :: string
  ai_actionItems :: "string list"
  ai_keyPeople :: "string list"
  ai_deadlines :: "string list"
  ai_importanceScore :: real
  ai_spamScore :: real
  ai_category :: string
  ai_sentiment :: string

datatype ai_reply =
    Rejected error
  | NoObject
  | Malformed
  | IllTyped
  | WellTyped ai_data

definition enhancedSummarize :: "(email \<Rightarrow> ai_reply) \<Rightarrow> clock \<Rightarrow> email \<Rightarrow> error + email" where
  "enhancedSummarize ai clk email =
     (if msg_id email = [] then Inl (MissingParameter ''valid email object'')
      else case ai email of
        Rejected e \<Rightarrow> Inl e
      | NoObject \<Rightarrow> Inl NoJsonObject
      | Malformed \<Rightarrow> Inl UnparsableResponse
      | IllTyped \<Rightarrow> Inl InvalidResponseFormat
      | WellTyped d \<Rightarrow>
          if ai_importanceScore d \<ge> 0 \<and> ai_importanceScore d \<le> 1
             \<and> ai_spamScore d \<ge> 0 \<and> ai_spamScore d \<le> 1
          then Inr (email\<lparr>autoSummary := Some (extendedSummary d),
                        shortSummary := Some (ai_shortSummary d),
                        actionItems := Some (ai_actionItems d),
                        keyPeople := Some (ai_keyPeople d),
                        deadlines := Some (ai_deadlines d),
                        importanceScore := ai_importanceScore d,
                        spamScore := ai_spamScore d,
                        category := Some (ai_category d),
                        sentiment := Some (ai_sentiment d),
                        enhancedAt := Some (now clk)\<rparr>)
          else Inl InvalidResponseFormat)"

section \<open>Categorisation\<close>

definition promotionalKeywords :: "string list" where
  "promotionalKeywords =
     [''offer'', ''discount'', ''promotion'', ''sale'', ''deal'', ''coupon'', ''save'',
      ''limited time'', ''exclusive'', ''buy now'', ''off'', ''free'', ''promo'']"

definition newsletterKeywords :: "string list" where
  "newsletterKeywords =
     [''newsletter'', ''digest'', ''weekly'', ''monthly'', ''update'', ''bulletin'',
      ''roundup'', ''recap'', ''summary'', ''edition'']"

definition financialKeywords :: "string list" where
  "financialKeywords =
     [''invoice'', ''payment'', ''transaction'', ''receipt'', ''order'', ''subscription'',
      ''credit card'', ''billing'', ''statement'', ''paid'', ''purchase'', ''tax'',
      ''refund'', ''balance'', ''account'', ''finance'', ''bank'', ''money'']"

definition invoiceKeywords :: "string list" where
  "invoiceKeywords =
     [''invoice'', ''bill'', ''receipt'', ''statement'', ''payment confirmation'']"

definition responseKeywords :: "string list" where
  "responseKeywords =
     [''let me know'', ''please respond'', ''reply'', ''response'', ''get back to me'',
      ''what do you think'', ''your thoughts'', ''your opinion'']"

definition socialKeywords :: "string list" where
  "socialKeywords =
     [''connect'', ''connection'', ''friend'', ''following'', ''follower'', ''liked'',
      ''commented'', ''shared'', ''social media'', ''network'', ''community'', ''profile'',
      ''group'']"

definition socialSenders :: "string list" where
  "socialSenders =
     [''facebook'', ''instagram'', ''linkedin'', ''twitter'', ''tiktok'', ''snapchat'',
      ''pinterest'', ''youtube'', ''reddit'', ''discord'', ''slack'']"

definition eventKeywords :: "string list" where
  "eventKeywords =
     [''invitation'', ''invite'', ''event'', ''party'', ''celebration'', ''gathering'',
      ''meeting'', ''webinar'', ''conference'', ''workshop'', ''join us'', ''calendar'',
      ''schedule'', ''agenda'', ''rsvp'', ''attend'', ''save the date'']"

definition surveyKeywords :: "string list" where
  "surveyKeywords =
     [''survey'', ''feedback'', ''questionnaire'', ''opinion'', ''rate'', ''rating'',
      ''review'', ''satisfaction'', ''poll'', ''evaluation'', ''assessment'',
      ''how did we do'']"

definition notificationKeywords :: "string list" where
  "notificationKeywords =
     [''notification'', ''alert'', ''update'', ''status'', ''changed'', ''activity'',
      ''notice'', ''reminder'', ''notify'', ''fyi'', ''attention'']"

definition notificationSenders :: "string list" where
  "notificationSenders =
     [''noreply'', ''no-reply'', ''donotreply'', ''notification'', ''alert'', ''system'',
      ''updates'', ''info'']"

definition followupKeywords :: "string list" where
  "followupKeywords =
     [''follow up'', ''following up'', ''checking in'', ''reminder'', ''as discussed'',
      ''as promised'', ''as mentioned'', ''as requested'']"

definition confirmationKeywords :: "string list" where
  "confirmationKeywords =
     [''confirmation'', ''confirmed'', ''verify'', ''verified'', ''complete'',
      ''completed'', ''success'', ''successful'', ''approved'', ''processed'',
      ''received'', ''thank you for'', ''order confirmed'', ''booking confirmed'',
      ''reservation confirmed'', ''registered'']"

definition businessKeywords :: "string list" where
  "businessKeywords =
     [''business'', ''company'', ''corporate'', ''client'', ''project'', ''deadline'',
      ''contract'', ''proposal'', ''agreement'', ''meeting'', ''vendor'', ''partner'',
      ''stakeholder'', ''roi'', ''kpi'', ''metrics'', ''performance'', ''professional'',
      ''report'', ''quarterly'']"

definition personalDomains :: "string list" where
  "personalDomains =
     [''gmail.com'', ''yahoo.com'', ''hotmail.com'', ''outlook.com'', ''aol.com'',
      ''icloud.com'']"

definition personalKeywords :: "string list" where
  "personalKeywords =
     [''personal'', ''family'', ''friend'', ''private'', ''home'', ''birthday'',
      ''anniversary'', ''vacation'', ''holiday'', ''gift'', ''congratulations'',
      ''best wishes'', ''regards'', ''love'', ''miss you'', ''thinking of you'', ''visit'',
      ''dinner'', ''lunch'']"

text \<open>A JavaScript \<^verbatim>\<open>Set\<close> of strings keeps insertion order: a list without repetition.
  \<open>dedupe\<close> is \<^verbatim>\<open>[...new Set(xs)]\<close>, the first occurrences in order.\<close>

definition set_add :: "string \<Rightarrow> string list \<Rightarrow> string list" where
  "set_add x xs = (if x \<in> set xs then xs else xs @ [x])"

definition dedupe :: "string list \<Rightarrow> string list" where
  "dedupe xs = fold set_add xs []"

text \<open>\<^verbatim>\<open>keywords.some(k => (shortSummary && shortSummary.toLowerCase().includes(k)) ||
  (title && title.toLowerCase().includes(k)))\<close>\<close>

definition mentions :: "string list \<Rightarrow> email \<Rightarrow> bool" where
  "mentions keywords email =
     list_ex (\<lambda>k. fieldHas (shortSummary email) k \<or> fieldHas (title email) k) keywords"

text \<open>\<^verbatim>\<open>senders.some(s => from && from.toLowerCase().includes(s))\<close>\<close>

definition senderMentions :: "string list \<Rightarrow> email \<Rightarrow> bool" where
  "senderMentions senders email = list_ex (\<lambda>s. fieldHas (mail_from email) s) senders"

text \<open>
  \<^verbatim>\<open>_extractDomainFromEmail\<close>. The address is the group of \<^verbatim>\<open>/<([^>]+)>/\<close> or, when that
  does not match, of \<^verbatim>\<open>/(\S+@\S+)/\<close>: the first run of non-blank characters with an
  \<^verbatim>\<open>@\<close> that is neither its first nor its last character. The domain is the group of
  \<^verbatim>\<open>/@([^@]+)$/\<close>: what follows the last \<^verbatim>\<open>@\<close>, when that is not empty.
\<close>

definition is_space :: "char \<Rightarrow> bool" where
  "is_space c = ((of_char c :: nat) \<in> {9, 10, 11, 12, 13, 32, 160})"

fun blank_runs :: "string \<Rightarrow> string list" where
  "blank_runs [] = [[]]"
| "blank_runs (c # cs) =
     (if is_space c then [] # blank_runs cs
      else (case blank_runs cs of [] \<Rightarrow> [[c]] | p # ps \<Rightarrow> (c # p) # ps))"

definition inner_at :: "string \<Rightarrow> bool" where
  "inner_at t = (CHR ''@'' \<in> set (butlast (tl t)))"

definition address_token :: "string \<Rightarrow> string option" where
  "address_token s = (case filter inner_at (blank_runs s) of [] \<Rightarrow> None | t # ts \<Rightarrow> Some t)"

definition after_last_at :: "string \<Rightarrow> string option" where
  "after_last_at s =
     (if CHR ''@'' \<in> set s \<and> rev (takeWhile (\<lambda>x. x \<noteq> CHR ''@'') (rev s)) \<noteq> []
      then Some (rev (takeWhile (\<lambda>x. x \<noteq> CHR ''@'') (rev s)))
      else None)"

definition extractDomainFromEmail :: "string option \<Rightarrow> string option" where
  "extractDomainFromEmail emailAddress =
     (if \<not> truthy emailAddress then None
      else case angle_group (orEmpty emailAddress) of
        Some g \<Rightarrow> after_last_at g
      | None \<Rightarrow>
          (case address_token (orEmpty emailAddress) of
             Some t \<Rightarrow> after_last_at t
           | None \<Rightarrow> None))"

text \<open>
  The state \<^verbatim>\<open>categorizeEmail\<close> works on: the label array of the clone, the set
  \<^verbatim>\<open>detectedCategories\<close>, and the clone's \<^verbatim>\<open>deletableScore\<close>.
\<close>

record cat_acc =
  acc_labels :: "string list"
  detected :: "string list"
  acc_deletable :: "real option"

text \<open>\<^verbatim>\<open>if (found && !labels.includes(name)) { labels.push(name);
  detectedCategories.add(name); }\<close>\<close>

definition addCategory :: "bool \<Rightarrow> string \<Rightarrow> cat_acc \<Rightarrow> cat_acc" where
  "addCategory found name a =
     (if found \<and> name \<notin> set (acc_labels a)
      then a\<lparr>acc_labels := acc_labels a @ [name], detected := set_add name (detected a)\<rparr>
      else a)"

text \<open>\<^verbatim>\<open>if (found) { labels.push(name); }\<close>\<close>

definition pushLabel :: "bool \<Rightarrow> string \<Rightarrow> cat_acc \<Rightarrow> cat_acc" where
  "pushLabel found name a = (if found then a\<lparr>acc_labels := acc_labels a @ [name]\<rparr> else a)"

text \<open>\<^verbatim>\<open>score || 0\<close>\<close>

definition orZero :: "real option \<Rightarrow> real" where
  "orZero x = (case x of None \<Rightarrow> 0 | Some r \<Rightarrow> r)"

text \<open>Step 4: the label Financial and, for invoice-like content, the label Invoice and
  0.4 more on \<^verbatim>\<open>deletableScore\<close>, which is not capped here.\<close>

definition addFinancial :: "email \<Rightarrow> cat_acc \<Rightarrow> cat_acc" where
  "addFinancial email a =
     (if mentions financialKeywords email \<and> ''Financial'' \<notin> set (acc_labels a)
      then (let b = a\<lparr>acc_labels := acc_labels a @ [''Financial''],
                        detected := set_add ''Financial'' (detected a)\<rparr>
            in if mentions invoiceKeywords email
               then b\<lparr>acc_labels := acc_labels b @ [''Invoice''],
                      acc_deletable := Some (orZero (acc_deletable b) + 0.4)\<rparr>
               else b)
      else a)"

text \<open>Step 5: action items, and whether an answer is asked for.\<close>

definition addActionLabels :: "email \<Rightarrow> cat_acc \<Rightarrow> cat_acc" where
  "addActionLabels email a =
     (case actionItems email of
        None \<Rightarrow> a
      | Some items \<Rightarrow>
          if items = [] then a
          else pushLabel
                 (list_ex (\<lambda>k. fieldHas (autoSummary email) k
                                 \<or> list_ex (\<lambda>item. includes_str (toLowerCase item) k) items)
                    responseKeywords)
                 ''Response Needed''
                 (pushLabel True ''Action Required'' a))"

text \<open>Step 13, the second disjunct: a sender domain that holds none of the free mail
  providers' domains.\<close>

definition isLikelyBusiness :: "email \<Rightarrow> bool" where
  "isLikelyBusiness email =
     (case extractDomainFromEmail (mail_from email) of
        None \<Rightarrow> False
      | Some senderDomain \<Rightarrow>
          senderDomain \<noteq> [] \<and> \<not> list_ex (\<lambda>d. includes_str senderDomain d) personalDomains)"

text \<open>Step 14, the second disjunct: \<^verbatim>\<open>this._contacts && this._contacts.includes(from)\<close>.
  \<^verbatim>\<open>includes\<close> turns a missing \<^verbatim>\<open>from\<close> into the text \<^verbatim>\<open>null\<close>.\<close>

definition isFromContact :: "string \<Rightarrow> email \<Rightarrow> bool" where
  "isFromContact contacts email =
     (contacts \<noteq> []
      \<and> includes_str contacts (case mail_from email of None \<Rightarrow> ''null'' | Some f \<Rightarrow> f))"

text \<open>
  Steps 1 to 16 of \<^verbatim>\<open>categorizeEmail\<close>, in the order of the source. The first
  argument is \<^verbatim>\<open>this._contacts\<close>.
\<close>

definition categorySteps :: "string \<Rightarrow> email \<Rightarrow> cat_acc" where
  "categorySteps contacts email =
     (let a0 = \<lparr>acc_labels = (case labels email of None \<Rightarrow> [] | Some ls \<Rightarrow> ls),
               detected = [], acc_deletable = deletableScore email\<rparr>;
          a1 = addCategory (truthy (category email)) (orEmpty (category email)) a0;
          a2 = addCategory (mentions promotionalKeywords email
                            \<or> (spamScore email > 0.3 \<and> spamScore email < 0.7))
                 ''Promotional'' a1;
          a3 = addCategory (mentions newsletterKeywords email) ''Newsletter'' a2;
          a4 = addFinancial email a3;
          a5 = addActionLabels email a4;
          a6 = pushLabel ((case deadlines email of None \<Rightarrow> False | Some ds \<Rightarrow> ds \<noteq> [])
                          \<or> (case urgencyScore email of None \<Rightarrow> False | Some u \<Rightarrow> u > 0.6))
                 ''Time Sensitive'' a5;
          a7 = addCategory (mentions socialKeywords email \<or> senderMentions socialSenders email)
                 ''Social'' a6;
          a8 = addCategory (mentions eventKeywords email) ''Event'' a7;
          a9 = addCategory (mentions surveyKeywords email) ''Survey'' a8;
          a10 = addCategory (mentions notificationKeywords email
                             \<or> senderMentions notificationSenders email)
                  ''Notification'' a9;
          a11 = pushLabel (mentions followupKeywords email) ''Follow-up'' a10;
          a12 = addCategory (mentions confirmationKeywords email) ''Confirmation'' a11;
          a13 = addCategory ((mentions businessKeywords email \<or> isLikelyBusiness email)
                             \<and> ''Personal'' \<notin> set (detected a12))
                  ''Business'' a12;
          a14 = addCategory ((mentions personalKeywords email \<or> isFromContact contacts email)
                             \<and> ''Business'' \<notin> set (detected a13))
                  ''Personal'' a13;
          a15 = pushLabel (actionItems email = Some [] \<and> detected a14 = [])
                  ''Information'' a14
      in pushLabel (priorityLabel email = Some ''Critical''
                    \<or> priorityLabel email = Some ''High'')
           ''Important'' a15)"

text \<open>
  \<^verbatim>\<open>categorizeEmail\<close>: the steps, then the labels made unique and the primary category
  filled in from the first detected one when the message had none.
\<close>

definition categorizeEmail :: "string \<Rightarrow> email \<Rightarrow> error + email" where
  "categorizeEmail contacts email =
     (if msg_id email = [] then Inl (MissingParameter ''valid email object'')
      else
        let a = categorySteps contacts email
        in Inr (email\<lparr>labels := Some (dedupe (acc_labels a)),
                      deletableScore := acc_deletable a,
                      category := (if truthy (category email) then category email
                                   else case detected a of
                                          [] \<Rightarrow> category email
                                        | c # cs \<Rightarrow> Some c)\<rparr>))"

section \<open>Attachments\<close>

definition typeMap :: "(string \<times> string) list" where
  "typeMap =
     [(''pdf'', ''document''), (''doc'', ''document''), (''docx'', ''document''),
      (''txt'', ''document''), (''rtf'', ''document''), (''odt'', ''document''),
      (''xls'', ''spreadsheet''), (''xlsx'', ''spreadsheet''), (''csv'', ''spreadsheet''),
      (''ods'', ''spreadsheet''), (''ppt'', ''presentation''),
      (''pptx'', ''presentation''), (''odp'', ''presentation''), (''jpg'', ''image''),
      (''jpeg'', ''image''), (''png'', ''image''), (''gif'', ''image''),
      (''bmp'', ''image''), (''svg'', ''image''), (''zip'', ''archive''),
      (''rar'', ''archive''), (''7z'', ''archive''), (''tar'', ''archive''),
      (''gz'', ''archive''), (''exe'', ''executable''), (''msi'', ''executable''),
      (''app'', ''executable''), (''dmg'', ''executable''), (''bat'', ''executable''),
      (''sh'', ''executable'')]"

definition invoiceAttachmentKeywords :: "string list" where
  "invoiceAttachmentKeywords =
     [''invoice'', ''receipt'', ''bill'', ''statement'']"

text \<open>\<^verbatim>\<open>typeMap[filename.split('.').pop().toLowerCase()] || 'other'\<close> (extensions that
  name a property every JavaScript object inherits are outside the model).\<close>

definition attachmentType :: "string \<Rightarrow> string" where
  "attachmentType name =
     (case map_of typeMap (toLowerCase (last (split_on CHR ''.'' name))) of
        None \<Rightarrow> ''other'' | Some t \<Rightarrow> t)"

text \<open>The body of \<^verbatim>\<open>attachments.forEach\<close>: the size is added, and a named attachment
  records its type and sets the flag of that type.\<close>

definition noteAttachment :: "attachment \<Rightarrow> attachment_metadata \<Rightarrow> attachment_metadata" where
  "noteAttachment a m =
     (let m1 = (if att_size a \<noteq> 0 then m\<lparr>totalSize := totalSize m + att_size a\<rparr> else m)
      in if truthy (filename a)
         then (let t = attachmentType (orEmpty (filename a));
                   m2 = m1\<lparr>types := set_add t (types m1)\<rparr>
               in if t = ''document'' then m2\<lparr>hasDocuments := True\<rparr>
                  else if t = ''spreadsheet'' then m2\<lparr>hasSpreadsheets := True\<rparr>
                  else if t = ''presentation'' then m2\<lparr>hasPresentations := True\<rparr>
                  else if t = ''image'' then m2\<lparr>hasImages := True\<rparr>
                  else if t = ''archive'' then m2\<lparr>hasArchives := True\<rparr>
                  else if t = ''executable'' then m2\<lparr>hasExecutables := True\<rparr>
                  else m2)
         else m1)"

definition hasInvoiceAttachment :: "attachment list \<Rightarrow> bool" where
  "hasInvoiceAttachment atts =
     list_ex (\<lambda>a. list_ex (\<lambda>k. fieldHas (filename a) k) invoiceAttachmentKeywords) atts"

text \<open>
  \<^verbatim>\<open>processAttachments\<close>: a message without attachments is returned as it is. Otherwise
  the labels are added in the source's order; \<^verbatim>\<open>spamScore\<close> and \<^verbatim>\<open>importanceScore\<close> are
  capped when they are raised, \<^verbatim>\<open>deletableScore\<close> is not.
\<close>

definition processAttachments :: "email \<Rightarrow> error + email" where
  "processAttachments email =
     (if msg_id email = [] then Inl (MissingParameter ''valid email object'')
      else case attachments email of
        None \<Rightarrow> Inr email
      | Some atts \<Rightarrow>
          if atts = [] then Inr email
          else
            let meta = fold noteAttachment atts
                         \<lparr>att_count = length atts, types = [], totalSize = 0,
                          hasDocuments = False, hasImages = False, hasSpreadsheets = False,
                          hasPresentations = False, hasArchives = False,
                          hasExecutables = False\<rparr>;
                l0 = (case labels email of None \<Rightarrow> [] | Some ls \<Rightarrow> ls) @ [''Has Attachments''];
                invoice = hasInvoiceAttachment atts;
                l1 = (if invoice then l0 @ [''Invoice Attachment''] else l0);
                l2 = (if hasDocuments meta then l1 @ [''Has Documents''] else l1);
                l3 = (if hasSpreadsheets meta then l2 @ [''Has Spreadsheets''] else l2);
                l4 = (if hasPresentations meta then l3 @ [''Has Presentations''] else l3);
                l5 = (if hasExecutables meta then l4 @ [''Has Executables''] else l4)
            in Inr (email\<lparr>attachmentMetadata := Some meta,
                          labels := Some (dedupe l5),
                          deletableScore :=
                            (if invoice then Some (orZero (deletableScore email) + 0.3)
                             else deletableScore email),
                          spamScore :=
                            (if hasExecutables meta then min (spamScore email + 0.2) 1
                             else spamScore email),
                          importanceScore :=
                            (if (hasDocuments meta \<or> hasSpreadsheets meta \<or> hasPresentations meta)
                                \<and> importanceScore email < 0.7
                             then min (importanceScore email + 0.15) 0.85
                             else importanceScore email)\<rparr>))"

section \<open>Sentiment and temporal decay\<close>

definition positiveWords :: "string list" where
  "positiveWords =
     [''thank'', ''thanks'', ''appreciate'', ''good'', ''great'', ''excellent'',
      ''awesome'', ''happy'', ''pleased'', ''glad'', ''congratulations'', ''well done'',
      ''success'']"

definition negativeWords :: "string list" where
  "negativeWords =
     [''issue'', ''problem'', ''error'', ''mistake'', ''fault'', ''wrong'', ''bad'',
      ''poor'', ''sorry'', ''apology'', ''unfortunate'', ''regret'', ''concern'',
      ''disappointing'']"

definition urgentWords :: "string list" where
  "urgentWords =
     [''urgent'', ''immediately'', ''asap'', ''emergency'', ''critical'', ''important'',
      ''deadline'', ''priority'', ''crucial'', ''vital'', ''urgent attention'']"

text \<open>
  \<^verbatim>\<open>text.match(new RegExp('\\b' + word + '\\b', 'gi'))\<close>, the number of matches. A
  match starts where the word starts the rest of the text with a word boundary before it
  and after it; the search goes on after the match. \<open>before\<close> says whether the character
  before the position is a word character, \<open>skip\<close> counts the characters of a match just
  found that are still to be passed.
\<close>

definition is_word_char :: "char \<Rightarrow> bool" where
  "is_word_char c =
     (let n = (of_char c :: nat)
      in (48 \<le> n \<and> n \<le> 57) \<or> (65 \<le> n \<and> n \<le> 90) \<or> n = 95 \<or> (97 \<le> n \<and> n \<le> 122))"

definition match_here :: "string \<Rightarrow> bool \<Rightarrow> string \<Rightarrow> bool" where
  "match_here w before s =
     (w \<noteq> [] \<and> starts_with s w
      \<and> before \<noteq> is_word_char (hd w)
      \<and> is_word_char (last w)
          \<noteq> (case drop (length w) s of [] \<Rightarrow> False | c # cs \<Rightarrow> is_word_char c))"

fun count_from :: "string \<Rightarrow> bool \<Rightarrow> nat \<Rightarrow> string \<Rightarrow> nat" where
  "count_from w before skip [] = 0"
| "count_from w before (Suc k) (c # cs) = count_from w (is_word_char c) k cs"
| "count_from w before 0 (c # cs) =
     (if match_here w before (c # cs)
      then 1 + count_from w (is_word_char c) (length w - 1) cs
      else count_from w (is_word_char c) 0 cs)"

definition countWord :: "string \<Rightarrow> string \<Rightarrow> nat" where
  "countWord s w = count_from w False 0 s"

definition countWords :: "string \<Rightarrow> string list \<Rightarrow> nat" where
  "countWords s ws = sum_list (map (countWord s) ws)"

text \<open>\<^verbatim>\<open>content.split(/\s+/).length\<close>: one more than the number of runs of blanks.\<close>

fun blank_run_count :: "bool \<Rightarrow> string \<Rightarrow> nat" where
  "blank_run_count inside [] = 0"
| "blank_run_count inside (c # cs) =
     (if is_space c then (if inside then 0 else 1) + blank_run_count True cs
      else blank_run_count False cs)"

definition splitLength :: "string \<Rightarrow> nat" where
  "splitLength s = 1 + blank_run_count False s"

text \<open>The tone: urgent before positive before negative, as the source tests them.\<close>

definition toneOf :: "nat \<Rightarrow> nat \<Rightarrow> nat \<Rightarrow> string" where
  "toneOf positiveCount negativeCount urgentCount =
     (if urgentCount > max positiveCount negativeCount then ''urgent''
      else if real positiveCount > real negativeCount * 1.5 then ''positive''
      else if real negativeCount > real positiveCount * 1.5 then ''negative''
      else ''neutral'')"

definition intensityOf :: "nat \<Rightarrow> nat \<Rightarrow> string" where
  "intensityOf totalEmotionalWords contentWordCount =
     (let emotionalDensity =
            (if contentWordCount > 0
             then real totalEmotionalWords / real contentWordCount else 0)
      in if emotionalDensity > 0.1 then ''high''
         else if emotionalDensity > 0.05 then ''moderate''
         else ''low'')"

text \<open>
  The age of a message in days: \<^verbatim>\<open>(now - new Date(email.date)) / (1000*60*60*24)\<close>.
  A missing \<^verbatim>\<open>date\<close> is \<^verbatim>\<open>null\<close>, as \<^verbatim>\<open>getHeader\<close> stores it, and \<^verbatim>\<open>new Date(null)\<close>
  is the epoch; a text that is no date gives \<^verbatim>\<open>NaN\<close>, here \<open>None\<close>.
\<close>

definition ageInDays :: "clock \<Rightarrow> email \<Rightarrow> real option" where
  "ageInDays clk email =
     (case (case date email of None \<Rightarrow> Some 0 | Some d \<Rightarrow> parseDate clk d) of
        None \<Rightarrow> None
      | Some t \<Rightarrow> Some (real_of_int (now clk - t) / real_of_int msPerDay))"

text \<open>
  The decay block at the end of \<^verbatim>\<open>applySentimentAnalysis\<close>. \<open>original\<close> is the method's
  argument (its \<^verbatim>\<open>priorityScore\<close> sets the floor), \<open>analyzed\<close> the clone being built.
\<close>

definition applyDecay :: "clock \<Rightarrow> email \<Rightarrow> email \<Rightarrow> email" where
  "applyDecay clk original analyzed =
     (case ageInDays clk analyzed of
        None \<Rightarrow> analyzed
      | Some age \<Rightarrow>
          if age > 3
          then (let factor = exp (- 0.1 * (age - 3));
                    newPriority = map_option (\<lambda>p. p * factor) (priorityScore analyzed);
                    minPriority = map_option (\<lambda>p. p * 0.3) (priorityScore original)
                in analyzed\<lparr>priorityScore :=
                               (case (newPriority, minPriority) of
                                  (Some a, Some b) \<Rightarrow> Some (max a b)
                                | _ \<Rightarrow> None),
                             decayFactor := Some factor,
                             decayApplied := True\<rparr>)
          else analyzed)"

text \<open>
  \<^verbatim>\<open>applySentimentAnalysis\<close>. A message whose \<^verbatim>\<open>sentiment\<close> is already set is returned
  at once, before the tone analysis and before the decay block.
\<close>

definition applySentimentAnalysis :: "clock \<Rightarrow> email \<Rightarrow> error + email" where
  "applySentimentAnalysis clk email =
     (if msg_id email = [] then Inl (MissingParameter ''valid email object'')
      else if truthy (sentiment email) then Inr email
      else
        let content = orEmpty (autoSummary email) @ '' '' @ orEmpty (shortSummary email)
                        @ '' '' @ orEmpty (title email);
            contentLower = toLowerCase content;
            positiveCount = countWords contentLower positiveWords;
            negativeCount = countWords contentLower negativeWords;
            urgentCount = countWords contentLower urgentWords;
            emotions = (if positiveCount > 0 then [''positive''] else [])
                         @ (if negativeCount > 0 then [''negative''] else [])
                         @ (if urgentCount > 0 then [''urgent''] else []);
            mood = toneOf positiveCount negativeCount urgentCount;
            strength = intensityOf (positiveCount + negativeCount + urgentCount)
                         (splitLength content);
            analyzed = email\<lparr>sentimentMetadata :=
                                Some \<lparr>tone = mood, intensity = strength,
                                      emotionalContent = emotions\<rparr>,
                              sentiment := Some mood,
                              urgencyScore :=
                                (if mood = ''urgent''
                                 then Some (min (case urgencyScore email of
                                                   None \<Rightarrow> 0.7
                                                 | Some u \<Rightarrow> if u = 0 then 0.7 else u + 0.2) 1)
                                 else urgencyScore email),
                              importanceScore :=
                                (if mood = ''urgent''
                                    \<or> (mood = ''negative'' \<and> strength = ''high'')
                                 then min (importanceScore email + 0.1) 1
                                 else importanceScore email)\<rparr>
        in Inr (applyDecay clk email analyzed))"

section \<open>The five passes of the enrichment, in order\<close>

definition enrich :: "(email \<Rightarrow> ai_reply) \<Rightarrow> string \<Rightarrow> clock \<Rightarrow> email \<Rightarrow> error + email" where
  "enrich ai contacts clk email =
     (case enhancedSummarize ai clk email of
        Inl e \<Rightarrow> Inl e
      | Inr summarized \<Rightarrow>
     (case applyAdvancedScoring clk summarized of
        Inl e \<Rightarrow> Inl e
      | Inr scored \<Rightarrow>
     (case categorizeEmail contacts scored of
        Inl e \<Rightarrow> Inl e
      | Inr categorized \<Rightarrow>
     (case processAttachments categorized of
        Inl e \<Rightarrow> Inl e
      | Inr attachmentTagged \<Rightarrow> applySentimentAnalysis clk attachmentTagged))))"

section \<open>The document store\<close>

text \<open>
  The per-user index document of the collection \<^verbatim>\<open>k2o-user\<close>. Each list is optional:
  the import writes an index without \<^verbatim>\<open>deletables\<close>, and the methods test several of
  the lists for presence before they use them.
\<close>

record index_doc =
  ids :: "string list option"
  inbox :: "string list option"
  deletables :: "string list option"
  newMail :: "string list option"
  summarizationQueue :: "string list option"
  updatedAt :: "int option"

text \<open>
  The world a method runs in: the two collections, and three logs that make the
  method's effects visible: every \<^verbatim>\<open>firestore.write\<close> (collection and key), every
  \<^verbatim>\<open>gmailClient.get\<close> (account and provider ID) and every \<^verbatim>\<open>system.logError\<close> of the
  enrichment loop (message ID and error). Reads and writes of the store do not fail in
  the model.
\<close>

record world =
  userDocs :: "string \<rightharpoonup> index_doc"
  mailDocs :: "string \<rightharpoonup> email"
  writeLog :: "(string \<times> string) list"
  fetchLog :: "(string \<times> string) list"
  errorLog :: "(string \<times> error) list"

definition MAIL_COLLECTION :: string where
  "MAIL_COLLECTION = ''k2o-mail''"

definition USER_COLLECTION :: string where
  "USER_COLLECTION = ''k2o-user''"

definition BATCH_SIZE :: nat where
  "BATCH_SIZE = 5"

text \<open>\<^verbatim>\<open>this._cacheIdsKey\<close>\<close>

definition cacheIdsKey :: "string \<Rightarrow> string" where
  "cacheIdsKey uid = ''user#'' @ uid @ ''#cached-ids''"

definition writeIndex :: "string \<Rightarrow> index_doc \<Rightarrow> world \<Rightarrow> world" where
  "writeIndex k d w =
     w\<lparr>userDocs := (userDocs w)(k \<mapsto> d), writeLog := writeLog w @ [(USER_COLLECTION, k)]\<rparr>"

definition writeMail :: "string \<Rightarrow> email \<Rightarrow> world \<Rightarrow> world" where
  "writeMail k e w =
     w\<lparr>mailDocs := (mailDocs w)(k \<mapsto> e), writeLog := writeLog w @ [(MAIL_COLLECTION, k)]\<rparr>"

section \<open>Cache reader\<close>

text \<open>\<^verbatim>\<open>get\<close>: the document, or \<^verbatim>\<open>null\<close> (here \<open>None\<close>) when there is none.\<close>

definition get :: "string \<Rightarrow> world \<Rightarrow> error + email option" where
  "get i w = (if i = [] then Inl (MissingParameter ''id'') else Inr (mailDocs w i))"

text \<open>\<^verbatim>\<open>getInbox\<close> reads \<^verbatim>\<open>.inbox\<close> of what the store returns: a \<^verbatim>\<open>TypeError\<close> when that
  is \<^verbatim>\<open>null\<close>. The result is \<^verbatim>\<open>undefined\<close> (\<open>None\<close>) for an index without the list.\<close>

definition getInbox :: "string \<Rightarrow> world \<Rightarrow> error + string list option" where
  "getInbox uid w =
     (case userDocs w (cacheIdsKey uid) of
        None \<Rightarrow> Inl TypeError
      | Some cachedIds \<Rightarrow> Inr (inbox cachedIds))"

text \<open>\<^verbatim>\<open>getDeletables\<close>: \<^verbatim>\<open>cachedIds?.deletables || []\<close>\<close>

definition getDeletables :: "string \<Rightarrow> world \<Rightarrow> error + string list" where
  "getDeletables uid w =
     (case userDocs w (cacheIdsKey uid) of
        None \<Rightarrow> Inr []
      | Some cachedIds \<Rightarrow>
          (case deletables cachedIds of None \<Rightarrow> Inr [] | Some ds \<Rightarrow> Inr ds))"

section \<open>View maintenance\<close>

text \<open>
  \<^verbatim>\<open>Promise.all(ids.map(id => this.get(id)))\<close> followed by a use of every loaded
  message: \<^verbatim>\<open>get\<close> rejects an empty ID, and a missing document is \<^verbatim>\<open>null\<close>, on which
  the sort's comparator (or, for a single message, \<^verbatim>\<open>email._id\<close>) is a \<^verbatim>\<open>TypeError\<close>.
\<close>

definition loadAll :: "string list \<Rightarrow> world \<Rightarrow> error + email list" where
  "loadAll is w =
     (if list_ex (\<lambda>i. i = []) is then Inl (MissingParameter ''id'')
      else if list_ex (\<lambda>i. mailDocs w i = None) is then Inl TypeError
      else Inr (map (\<lambda>i. the (mailDocs w i)) is))"

text \<open>
  \<^verbatim>\<open>updateInbox\<close>. \<^verbatim>\<open>Array.prototype.sort\<close> is stable, and the comparator
  \<^verbatim>\<open>(b.score || 0) - (a.score || 0)\<close> orders by descending score: the result is the
  stable sort on the negated score. The deletable view sorts a copy of the list already
  sorted by priority.
\<close>

definition updateInbox :: "string \<Rightarrow> clock \<Rightarrow> index_doc \<Rightarrow> world \<Rightarrow> (error + unit) \<times> world" where
  "updateInbox uid clk cachedIds w =
     (case inbox cachedIds of
        None \<Rightarrow> (Inl TypeError, w)
      | Some is \<Rightarrow>
          (case loadAll is w of
             Inl e \<Rightarrow> (Inl e, w)
           | Inr loaded \<Rightarrow>
               (let emails = sort_key (\<lambda>e. - orZero (priorityScore e)) loaded;
                    deletableEmails = sort_key (\<lambda>e. - orZero (deletableScore e)) emails
                in (Inr (),
                    writeIndex (cacheIdsKey uid)
                      (cachedIds\<lparr>inbox := Some (map msg_id emails),
                                 deletables := Some (map msg_id deletableEmails),
                                 updatedAt := Some (now clk)\<rparr>) w))))"


section \<open>Import\<close>

text \<open>
  The collaborators of the import, as inputs: the user's accounts in the order of
  \<^verbatim>\<open>Object.entries\<close>, the two Google secrets (an error when their retrieval fails), the
  provider's listing of the label \<^verbatim>\<open>INBOX\<close> for an account (\<^verbatim>\<open>GMail.create\<close> and
  \<^verbatim>\<open>getIdsByLabel\<close>), and the content of a message.
\<close>

record account =
  acc_type :: string
  token :: "string option"

record provider_data =
  pd_date :: "string option"
  pd_title :: "string option"
  pd_from :: "string option"
  pd_to :: "string option"
  pd_textBody :: string

record mail_env =
  userAccounts :: "error + (string \<times> account) list"
  googleSecrets :: "error option"
  gmailIds :: "string \<Rightarrow> error + string list"
  gmailGet :: "string \<Rightarrow> string \<Rightarrow> error + provider_data"

text \<open>The document the import stores for a new message: the provider's fields, the owner
  and zero scores; nothing is derived yet.\<close>

definition newDocument :: "string \<Rightarrow> string \<Rightarrow> string \<Rightarrow> clock \<Rightarrow> provider_data \<Rightarrow> email" where
  "newDocument uid aid emailId clk emailData =
     \<lparr>msg_id = composeId uid aid emailId, doc_userId = uid, doc_accountId = aid,
      doc_providerId = emailId, cachedAt = now clk,
      date = pd_date emailData, title = pd_title emailData,
      mail_from = pd_from emailData, mail_to = pd_to emailData,
      textBody = pd_textBody emailData,
      autoSummary = None, shortSummary = None, actionItems = None, keyPeople = None,
      deadlines = None, importanceScore = 0, spamScore = 0, category = None,
      sentiment = None, enhancedAt = None, labels = None, attachments = None,
      attachmentMetadata = None, deletableScore = None, urgencyScore = None,
      priorityScore = None, priorityLabel = None, sentimentMetadata = None,
      decayFactor = None, decayApplied = False\<rparr>"

text \<open>The inner loop: each new message is fetched and written; the first failed fetch
  ends the import, with the documents written so far left in the store.\<close>

fun fetchNew ::
  "string \<Rightarrow> mail_env \<Rightarrow> clock \<Rightarrow> string \<Rightarrow> string list \<Rightarrow> string list \<Rightarrow> world
     \<Rightarrow> (error + string list) \<times> world" where
  "fetchNew uid env clk aid [] newIds w = (Inr newIds, w)"
| "fetchNew uid env clk aid (emailId # rest) newIds w =
     (case gmailGet env aid emailId of
        Inl e \<Rightarrow> (Inl e, w\<lparr>fetchLog := fetchLog w @ [(aid, emailId)]\<rparr>)
      | Inr emailData \<Rightarrow>
          fetchNew uid env clk aid rest (newIds @ [composeId uid aid emailId])
            (writeMail (composeId uid aid emailId) (newDocument uid aid emailId clk emailData)
               (w\<lparr>fetchLog := fetchLog w @ [(aid, emailId)]\<rparr>)))"

text \<open>
  The loop over the Google accounts. \<open>known\<close> is \<^verbatim>\<open>cachedIds.ids\<close> as read at the start
  (\<^verbatim>\<open>cachedIds.ids.includes\<close> is a \<^verbatim>\<open>TypeError\<close> when the index has no such list and
  the listing is not empty); \<open>inb\<close> and \<open>newIds\<close> are the arrays \<^verbatim>\<open>inbox\<close> and
  \<^verbatim>\<open>newIds\<close> built so far.
\<close>

fun importAccounts ::
  "string \<Rightarrow> mail_env \<Rightarrow> clock \<Rightarrow> string list option \<Rightarrow> (string \<times> account) list
     \<Rightarrow> string list \<Rightarrow> string list \<Rightarrow> world
     \<Rightarrow> (error + string list \<times> string list) \<times> world" where
  "importAccounts uid env clk known [] inb newIds w = (Inr (inb, newIds), w)"
| "importAccounts uid env clk known ((aid, acct) # rest) inb newIds w =
     (if \<not> truthy (token acct) then (Inl (MissingRefreshToken aid), w)
      else case gmailIds env aid of
        Inl e \<Rightarrow> (Inl e, w)
      | Inr emailIds \<Rightarrow>
          if known = None \<and> emailIds \<noteq> [] then (Inl TypeError, w)
          else
            (case fetchNew uid env clk aid
                    (filter (\<lambda>emailId. composeId uid aid emailId \<notin> set (case known of None \<Rightarrow> [] | Some ks \<Rightarrow> ks))
                       emailIds)
                    newIds w of
               (Inl e, w') \<Rightarrow> (Inl e, w')
             | (Inr newIds', w') \<Rightarrow>
                 importAccounts uid env clk known rest
                   (inb @ map (composeId uid aid) emailIds) newIds' w'))"

text \<open>
  \<^verbatim>\<open>importNewEmails\<close>. Without a Google account it returns before any write. The index
  it writes at the end has no \<^verbatim>\<open>deletables\<close>.
\<close>

definition importNewEmails :: "string \<Rightarrow> mail_env \<Rightarrow> clock \<Rightarrow> world \<Rightarrow> (error + unit) \<times> world" where
  "importNewEmails uid env clk w =
     (let cachedIds = (case userDocs w (cacheIdsKey uid) of
                         None \<Rightarrow> \<lparr>ids = Some [], inbox = Some [], deletables = Some [],
                                  newMail = Some [], summarizationQueue = Some [],
                                  updatedAt = None\<rparr>
                       | Some d \<Rightarrow> d);
          oldMail = (case newMail cachedIds of None \<Rightarrow> [] | Some m \<Rightarrow> m)
      in case userAccounts env of
           Inl e \<Rightarrow> (Inl e, w)
         | Inr accounts \<Rightarrow>
             (let googleAccounts = filter (\<lambda>(aid, acct). acc_type acct = ''google'') accounts
              in if googleAccounts = [] then (Inr (), w)
                 else case googleSecrets env of
                   Some e \<Rightarrow> (Inl e, w)
                 | None \<Rightarrow>
                     (case importAccounts uid env clk (ids cachedIds) googleAccounts [] [] w of
                        (Inl e, w') \<Rightarrow> (Inl e, w')
                      | (Inr (inb, newIds), w') \<Rightarrow>
                          (case (ids cachedIds, summarizationQueue cachedIds) of
                             (Some known, Some queue) \<Rightarrow>
                               (Inr (),
                                writeIndex (cacheIdsKey uid)
                                  \<lparr>ids = Some (known @ newIds), inbox = Some inb,
                                   deletables = None, newMail = Some (oldMail @ newIds),
                                   summarizationQueue = Some (queue @ newIds),
                                   updatedAt = Some (now clk)\<rparr> w')
                           | _ \<Rightarrow> (Inl TypeError, w')))))"

section \<open>Enrichment of the queue\<close>

text \<open>
  \<^verbatim>\<open>processedEmails.push(sentimentAnalyzed)\<close>: no declaration of \<^verbatim>\<open>processedEmails\<close>
  exists in the module (nor anywhere in the sources), so evaluating the name throws a
  \<^verbatim>\<open>ReferenceError\<close>.
\<close>

definition processedEmails_push :: "email \<Rightarrow> error + unit" where
  "processedEmails_push sentimentAnalyzed = Inl (ReferenceError ''processedEmails'')"

text \<open>The body of the \<^verbatim>\<open>try\<close> for one message: the five passes, the push, and then the
  ID to delete from \<^verbatim>\<open>remainingIdsSet\<close>.\<close>

definition tryEnrich :: "(email \<Rightarrow> ai_reply) \<Rightarrow> string \<Rightarrow> clock \<Rightarrow> email \<Rightarrow> error + string" where
  "tryEnrich ai contacts clk email =
     (case enrich ai contacts clk email of
        Inl e \<Rightarrow> Inl e
      | Inr sentimentAnalyzed \<Rightarrow>
          (case processedEmails_push sentimentAnalyzed of
             Inl e \<Rightarrow> Inl e
           | Inr u \<Rightarrow> Inr (msg_id email)))"

text \<open>
  One callback of \<^verbatim>\<open>emails.map(async email => ...)\<close>. The result is the rejection of the
  callback, if any, the set of remaining IDs and the world. For a \<^verbatim>\<open>null\<close> message the
  \<^verbatim>\<open>catch\<close> block itself throws (\<^verbatim>\<open>email._id\<close>) before it logs.
\<close>

definition processEmail ::
  "(email \<Rightarrow> ai_reply) \<Rightarrow> string \<Rightarrow> clock \<Rightarrow> email option \<Rightarrow> string list \<times> world
     \<Rightarrow> error option \<times> string list \<times> world" where
  "processEmail ai contacts clk loaded rw =
     (case loaded of
        None \<Rightarrow> (Some TypeError, rw)
      | Some email \<Rightarrow>
          (case tryEnrich ai contacts clk email of
             Inl e \<Rightarrow> (None, fst rw, (snd rw)\<lparr>errorLog := errorLog (snd rw) @ [(msg_id email, e)]\<rparr>)
           | Inr done \<Rightarrow> (None, filter (\<lambda>x. x \<noteq> done) (fst rw), snd rw)))"

text \<open>One batch: \<^verbatim>\<open>Promise.all\<close> runs every callback and rejects with the first
  rejection.\<close>

fun processBatch ::
  "(email \<Rightarrow> ai_reply) \<Rightarrow> string \<Rightarrow> clock \<Rightarrow> email option list \<Rightarrow> string list \<times> world
     \<Rightarrow> error option \<times> string list \<times> world" where
  "processBatch ai contacts clk [] rw = (None, rw)"
| "processBatch ai contacts clk (loaded # rest) rw =
     (case processEmail ai contacts clk loaded rw of
        (rejected, rw') \<Rightarrow>
          (case processBatch ai contacts clk rest rw' of
             (later, rw'') \<Rightarrow> ((case rejected of None \<Rightarrow> later | Some e \<Rightarrow> Some e), rw'')))"

text \<open>\<^verbatim>\<open>queue.slice(i, i + BATCH_SIZE)\<close> for \<^verbatim>\<open>i = 0, BATCH_SIZE, ...\<close>\<close>

function batches :: "string list \<Rightarrow> string list list" where
  "batches q = (if q = [] then [] else take BATCH_SIZE q # batches (drop BATCH_SIZE q))"
  by pat_completeness auto
termination
  by (relation "measure length") (auto simp: BATCH_SIZE_def)

text \<open>The loop over the batches: each batch loads its messages (\<^verbatim>\<open>get\<close> rejects an empty
  ID), then processes them; a rejection ends the method.\<close>

fun processBatches ::
  "(email \<Rightarrow> ai_reply) \<Rightarrow> string \<Rightarrow> clock \<Rightarrow> string list list \<Rightarrow> string list \<times> world
     \<Rightarrow> (error + string list) \<times> world" where
  "processBatches ai contacts clk [] rw = (Inr (fst rw), snd rw)"
| "processBatches ai contacts clk (batchIds # rest) rw =
     (if list_ex (\<lambda>i. i = []) batchIds then (Inl (MissingParameter ''id''), snd rw)
      else case processBatch ai contacts clk (map (\<lambda>i. mailDocs (snd rw) i) batchIds) rw of
        (Some e, remaining, w') \<Rightarrow> (Inl e, w')
      | (None, rw') \<Rightarrow> processBatches ai contacts clk rest rw')"

text \<open>
  \<^verbatim>\<open>supplySummaries\<close>. Nothing is done without an index or with an empty queue.
  Otherwise the queue is processed in batches and \<^verbatim>\<open>updateInbox\<close> stores the index with
  the remaining IDs as its queue. The enriched messages themselves are not written.
\<close>

definition supplySummaries ::
  "string \<Rightarrow> (email \<Rightarrow> ai_reply) \<Rightarrow> string \<Rightarrow> clock \<Rightarrow> world \<Rightarrow> (error + unit) \<times> world" where
  "supplySummaries uid ai contacts clk w =
     (case userDocs w (cacheIdsKey uid) of
        None \<Rightarrow> (Inr (), w)
      | Some cachedIds \<Rightarrow>
          (case summarizationQueue cachedIds of
             None \<Rightarrow> (Inr (), w)
           | Some queue \<Rightarrow>
               if queue = [] then (Inr (), w)
               else (case processBatches ai contacts clk (batches queue) (dedupe queue, w) of
                       (Inl e, w') \<Rightarrow> (Inl e, w')
                     | (Inr remaining, w') \<Rightarrow>
                         updateInbox uid clk
                           (cachedIds\<lparr>summarizationQueue := Some remaining\<rparr>) w')))"

section \<open>Notions the properties are stated with\<close>


text \<open>The score the views order a message ID by: the stored message's score, 0 when it has
  none (\<^verbatim>\<open>score || 0\<close>).\<close>

definition priorityOf :: "world \<Rightarrow> string \<Rightarrow> real" where
  "priorityOf w i = (case mailDocs w i of None \<Rightarrow> 0 | Some e \<Rightarrow> orZero (priorityScore e))"

definition deletableOf :: "world \<Rightarrow> string \<Rightarrow> real" where
  "deletableOf w i = (case mailDocs w i of None \<Rightarrow> 0 | Some e \<Rightarrow> orZero (deletableScore e))"

text \<open>The index document of a user, and the writes of message documents among a log.\<close>

definition indexOf :: "string \<Rightarrow> world \<Rightarrow> index_doc option" where
  "indexOf uid w = userDocs w (cacheIdsKey uid)"

definition mailWrites :: "(string \<times> string) list \<Rightarrow> (string \<times> string) list" where
  "mailWrites ws = filter (\<lambda>(c, k). c = MAIL_COLLECTION) ws"

text \<open>
  For the import: the IDs an index knows, and the accounts whose listing is fully among
  a set of composite IDs (the account has a token, its listing is available and every
  listed message's composite ID is in the set).
\<close>

definition knownList :: "string list option \<Rightarrow> string list" where
  "knownList known = (case known of None \<Rightarrow> [] | Some ks \<Rightarrow> ks)"

definition listed :: "string \<Rightarrow> mail_env \<Rightarrow> string set \<Rightarrow> string \<times> account \<Rightarrow> bool" where
  "listed uid env seen entry =
     (truthy (token (snd entry))
      \<and> (\<exists>emailIds. gmailIds env (fst entry) = Inr emailIds
             \<and> composeId uid (fst entry) ` set emailIds \<subseteq> seen))"

section \<open>Sample data\<close>

text \<open>
  A clock at 2026-01-01T00:00:00Z that parses one date text, ten days earlier; a user
  with a UUID; one message of the account \<^verbatim>\<open>google-1\<close> and a reply of the enrichment
  client for it.
\<close>

definition sampleClock :: clock where
  "sampleClock =
     \<lparr>now = 1767225600000,
      parseDate = (\<lambda>s. if s = ''Mon, 22 Dec 2025 00:00:00 +0000''
                        then Some 1766361600000 else None)\<rparr>"

definition laterClock :: clock where
  "laterClock = sampleClock\<lparr>now := 1767229200000\<rparr>"

definition sampleUser :: string where
  "sampleUser = ''0f8fad5b-d9cb-469f-a165-70867728950e''"

definition sampleContacts :: string where
  "sampleContacts = ''Bob <bob@home.org>''"

definition invoiceData :: provider_data where
  "invoiceData =
     \<lparr>pd_date = Some ''Mon, 22 Dec 2025 00:00:00 +0000'', pd_title = Some ''Invoice 42'',
      pd_from = Some ''Acme Billing <billing@acme.com>'', pd_to = Some ''me@home.org'',
      pd_textBody = ''Please find the invoice attached.''\<rparr>"

definition invoiceId :: string where
  "invoiceId = ''0f8fad5b#google-1#18c2a''"

definition invoiceMail :: email where
  "invoiceMail = newDocument sampleUser ''google-1'' ''18c2a'' sampleClock invoiceData"

definition invoiceReply :: ai_data where
  "invoiceReply =
     \<lparr>extendedSummary = ''Invoice for March'', ai_shortSummary = ''Invoice for March'',
      ai_actionItems = [], ai_keyPeople = [], ai_deadlines = [],
      ai_importanceScore = 0.5, ai_spamScore = 0,
      ai_category = ''Notification'', ai_sentiment = ''Neutral''\<rparr>"

definition sampleAi :: "email \<Rightarrow> ai_reply" where
  "sampleAi e = WellTyped invoiceReply"

text \<open>A message that enters the sentiment pass with the sentiment and the priority of an
  enriched message; its date is ten days before the sample clock's now.\<close>

definition agedMail :: email where
  "agedMail = invoiceMail\<lparr>sentiment := Some ''Neutral'', priorityScore := Some 0.5\<rparr>"


text \<open>A user with a Slack account and a Google account whose inbox lists the one message;
  and the same user with the Slack account only.\<close>

definition sampleEnv :: mail_env where
  "sampleEnv =
     \<lparr>userAccounts = Inr [(''slack-1'', \<lparr>acc_type = ''slack'', token = None\<rparr>),
                          (''google-1'', \<lparr>acc_type = ''google'', token = Some ''1//refresh''\<rparr>)],
      googleSecrets = None,
      gmailIds = (\<lambda>aid. if aid = ''google-1'' then Inr [''18c2a'']
                          else Inl (RemoteFailure ''no such account'')),
      gmailGet = (\<lambda>aid emailId. if aid = ''google-1'' \<and> emailId = ''18c2a''
                                  then Inr invoiceData
                                  else Inl (RemoteFailure ''no such message''))\<rparr>"

definition slackOnlyEnv :: mail_env where
  "slackOnlyEnv =
     sampleEnv\<lparr>userAccounts := Inr [(''slack-1'', \<lparr>acc_type = ''slack'', token = None\<rparr>)]\<rparr>"

definition emptyWorld :: world where
  "emptyWorld =
     \<lparr>userDocs = Map.empty, mailDocs = Map.empty, writeLog = [], fetchLog = [], errorLog = []\<rparr>"

text \<open>The world after the sample user's first import into the empty world.\<close>

definition importedIndex :: index_doc where
  "importedIndex =
     \<lparr>ids = Some [invoiceId], inbox = Some [invoiceId], deletables = None,
      newMail = Some [invoiceId], summarizationQueue = Some [invoiceId],
      updatedAt = Some 1767225600000\<rparr>"

definition importedWorld :: world where
  "importedWorld =
     \<lparr>userDocs = [cacheIdsKey sampleUser \<mapsto> importedIndex],
      mailDocs = [invoiceId \<mapsto> invoiceMail],
      writeLog = [(MAIL_COLLECTION, invoiceId), (USER_COLLECTION, cacheIdsKey sampleUser)],
      fetchLog = [(''google-1'', ''18c2a'')], errorLog = []\<rparr>"

text \<open>Two scored messages, the first of low priority and highly deletable, the second
  the other way round, and worlds whose index lists them: each once, and the first one
  twice.\<close>

definition lowMail :: email where
  "lowMail = invoiceMail\<lparr>msg_id := ''0f8fad5b#google-1#aaa'',
                          priorityScore := Some 0.2, deletableScore := Some 0.9\<rparr>"

definition highMail :: email where
  "highMail = invoiceMail\<lparr>msg_id := ''0f8fad5b#google-1#bbb'',
                           priorityScore := Some 0.7, deletableScore := Some 0.1\<rparr>"

definition twoMailIndex :: index_doc where
  "twoMailIndex =
     \<lparr>ids = Some [''0f8fad5b#google-1#aaa'', ''0f8fad5b#google-1#bbb''],
      inbox = Some [''0f8fad5b#google-1#aaa'', ''0f8fad5b#google-1#bbb''],
      deletables = Some [''0f8fad5b#google-1#aaa'', ''0f8fad5b#google-1#bbb''],
      newMail = Some [], summarizationQueue = Some [], updatedAt = None\<rparr>"

definition twoMailWorld :: world where
  "twoMailWorld =
     \<lparr>userDocs = [cacheIdsKey sampleUser \<mapsto> twoMailIndex],
      mailDocs = [''0f8fad5b#google-1#aaa'' \<mapsto> lowMail, ''0f8fad5b#google-1#bbb'' \<mapsto> highMail],
      writeLog = [], fetchLog = [], errorLog = []\<rparr>"


section \<open>Properties of the codec\<close>

lemma split_on_nonempty: "split_on c s \<noteq> []"
  by (induction s) (auto split: list.splits)

lemma split_on_no_sep: "c \<notin> set s \<Longrightarrow> split_on c s = [s]"
  by (induction s) auto

lemma split_on_append_sep:
  "c \<notin> set u \<Longrightarrow> split_on c (u @ c # r) = u # split_on c r"
  by (induction u) auto

text \<open>
  Claim C5, as the code has it. The composite ID starts with the first 8 characters of the
  user ID, so the round trip needs them to hold no \<^verbatim>\<open>#\<close> either (user IDs made by
  \<^verbatim>\<open>createUser\<close> are UUIDs and hold none). Then, for an account ID and a provider ID
  without \<^verbatim>\<open>#\<close>, \<^verbatim>\<open>decomposeId (composeId a p)\<close> gives back \<open>a\<close> and \<open>p\<close>; and
  \<^verbatim>\<open>decomposeId\<close> fails with \<^verbatim>\<open>Malformed ID\<close> on every string that splits into fewer
  than 3 parts.
\<close>

theorem composeId_roundtrip:
  "(CHR ''#'' \<notin> set (take 8 uid) \<and> CHR ''#'' \<notin> set aid \<and> CHR ''#'' \<notin> set pid
      \<longrightarrow> decomposeId (composeId uid aid pid)
            = Inr \<lparr>userId = take 8 uid, accountId = aid, providerId = pid\<rparr>)
   \<and> (length (split_on CHR ''#'' i) < 3 \<longrightarrow> decomposeId i = Inl (MalformedId i))"
proof (intro conjI impI)
  assume h: "CHR ''#'' \<notin> set (take 8 uid) \<and> CHR ''#'' \<notin> set aid \<and> CHR ''#'' \<notin> set pid"
  have "split_on CHR ''#'' (composeId uid aid pid) = [take 8 uid, aid, pid]"
    using h by (simp add: composeId_def split_on_append_sep split_on_no_sep)
  then show "decomposeId (composeId uid aid pid)
      = Inr \<lparr>userId = take 8 uid, accountId = aid, providerId = pid\<rparr>"
    by (simp add: decomposeId_def)
next
  assume "length (split_on CHR ''#'' i) < 3"
  then show "decomposeId i = Inl (MalformedId i)"
    by (auto simp: decomposeId_def split: list.splits)
qed

theorem composeId_roundtrip_witness:
  "decomposeId (composeId ''0f8fad5b-d9cb'' ''google-1'' ''18c2a'')
     = Inr \<lparr>userId = ''0f8fad5b'', accountId = ''google-1'', providerId = ''18c2a''\<rparr>
   \<and> decomposeId ''0f8fad5b#google-1'' = Inl (MalformedId ''0f8fad5b#google-1'')"
  using composeId_roundtrip [of "''0f8fad5b-d9cb''" "''google-1''" "''18c2a''" "''0f8fad5b#google-1''"]
  by simp

text \<open>
  The claim as written quantifies over the account ID and the provider ID only. With a
  user ID whose prefix holds a \<^verbatim>\<open>#\<close> the parts shift: the account ID read back is a piece
  of the user ID.
\<close>

theorem composeId_roundtrip_counterexample:
  "CHR ''#'' \<notin> set ''acct'' \<and> CHR ''#'' \<notin> set ''msg1''
   \<and> decomposeId (composeId ''a#b'' ''acct'' ''msg1'')
       = Inr \<lparr>userId = ''a'', accountId = ''b'', providerId = ''acct''\<rparr>
   \<and> decomposeId (composeId ''a#b'' ''acct'' ''msg1'')
       \<noteq> Inr \<lparr>userId = ''a#b'', accountId = ''acct'', providerId = ''msg1''\<rparr>"
  by (simp add: composeId_def decomposeId_def)

section \<open>Properties of the views without an index\<close>

text \<open>
  Claim C9. When the store holds no index document for the user, \<^verbatim>\<open>getDeletables\<close>
  returns the empty sequence, and \<^verbatim>\<open>getInbox\<close> returns no value: it fails with the
  \<^verbatim>\<open>TypeError\<close> of reading \<^verbatim>\<open>.inbox\<close> of \<^verbatim>\<open>null\<close>.
\<close>

theorem views_without_index:
  "indexOf uid w = None \<Longrightarrow> getDeletables uid w = Inr [] \<and> getInbox uid w = Inl TypeError"
  by (simp add: indexOf_def getDeletables_def getInbox_def)

theorem views_without_index_witness:
  "indexOf sampleUser emptyWorld = None
   \<and> getDeletables sampleUser emptyWorld = Inr []
   \<and> getInbox sampleUser emptyWorld = Inl TypeError"
  using views_without_index [of sampleUser emptyWorld]
  by (simp add: indexOf_def emptyWorld_def)

section \<open>Properties of the import\<close>

text \<open>
  Claim C10. When none of the user's accounts is a Google account, \<^verbatim>\<open>importNewEmails\<close>
  returns normally and leaves the world as it was: the write log is unchanged (no write
  was performed), no index document is created and no message document is written,
  whether or not an index existed before.
\<close>

theorem import_without_google_account:
  assumes "userAccounts env = Inr accounts"
    and "\<forall>entry \<in> set accounts. acc_type (snd entry) \<noteq> ''google''"
  shows "importNewEmails uid env clk w = (Inr (), w)"
proof -
  have "filter (\<lambda>(aid, acct). acc_type acct = ''google'') accounts = []"
    using assms(2) by (auto simp: filter_empty_conv)
  then show ?thesis
    using assms(1) by (simp add: importNewEmails_def Let_def)
qed

theorem import_without_google_account_witness:
  "importNewEmails sampleUser slackOnlyEnv sampleClock emptyWorld = (Inr (), emptyWorld)
   \<and> indexOf sampleUser emptyWorld = None \<and> writeLog emptyWorld = []"
  using import_without_google_account
    [of slackOnlyEnv "[(''slack-1'', \<lparr>acc_type = ''slack'', token = None\<rparr>)]"
        sampleUser sampleClock emptyWorld]
  by (simp add: slackOnlyEnv_def sampleEnv_def indexOf_def emptyWorld_def)

lemma fetchNew_Inr:
  "fetchNew uid env clk aid xs newIds w = (Inr newIds', w')
     \<Longrightarrow> newIds' = newIds @ map (composeId uid aid) xs"
proof (induction xs arbitrary: newIds w)
  case Nil
  then show ?case by simp
next
  case (Cons emailId rest)
  from Cons.prems obtain emailData where
    "fetchNew uid env clk aid rest (newIds @ [composeId uid aid emailId])
       (writeMail (composeId uid aid emailId) (newDocument uid aid emailId clk emailData)
          (w\<lparr>fetchLog := fetchLog w @ [(aid, emailId)]\<rparr>)) = (Inr newIds', w')"
    by (auto split: sum.splits)
  from Cons.IH [OF this] show ?case by simp
qed

lemma listed_mono: "listed uid env A entry \<Longrightarrow> A \<subseteq> B \<Longrightarrow> listed uid env B entry"
  by (auto simp: listed_def)

lemma importAccounts_Inr:
  "importAccounts uid env clk known accts inb newIds w = (Inr (inb', newIds'), w')
     \<Longrightarrow> set newIds \<subseteq> set newIds'
         \<and> (\<forall>entry \<in> set accts. listed uid env (set (knownList known) \<union> set newIds') entry)"
proof (induction accts arbitrary: inb newIds w)
  case Nil
  then show ?case by simp
next
  case (Cons entry rest)
  obtain aid acct where entry: "entry = (aid, acct)" by (cases entry)
  from Cons.prems entry have tok: "truthy (token acct)"
    by (auto split: if_splits)
  from Cons.prems entry tok obtain emailIds where ids: "gmailIds env aid = Inr emailIds"
    by (auto split: sum.splits)
  let ?new = "filter (\<lambda>emailId. composeId uid aid emailId
                         \<notin> set (case known of None \<Rightarrow> [] | Some ks \<Rightarrow> ks)) emailIds"
  from Cons.prems entry tok ids obtain newIds1 w1 where
    f: "fetchNew uid env clk aid ?new newIds w = (Inr newIds1, w1)"
    and r: "importAccounts uid env clk known rest
              (inb @ map (composeId uid aid) emailIds) newIds1 w1 = (Inr (inb', newIds'), w')"
    by (auto split: if_splits sum.splits prod.splits)
  have n1: "newIds1 = newIds @ map (composeId uid aid) ?new"
    by (rule fetchNew_Inr [OF f])
  from Cons.IH [OF r] have sub: "set newIds1 \<subseteq> set newIds'"
    and others: "\<forall>e \<in> set rest. listed uid env (set (knownList known) \<union> set newIds') e"
    by auto
  have "composeId uid aid ` set emailIds \<subseteq> set (knownList known) \<union> set newIds1"
    by (auto simp: n1 knownList_def)
  with sub have "composeId uid aid ` set emailIds \<subseteq> set (knownList known) \<union> set newIds'"
    by blast
  then have "listed uid env (set (knownList known) \<union> set newIds') entry"
    using tok ids by (simp add: listed_def entry)
  moreover have "set newIds \<subseteq> set newIds'"
    using sub by (auto simp: n1)
  ultimately show ?case
    using others by simp
qed

lemma importAccounts_all_known:
  "\<forall>entry \<in> set accts. listed uid env (set ks) entry
     \<Longrightarrow> \<exists>inb'. importAccounts uid env clk (Some ks) accts inb newIds w = (Inr (inb', newIds), w)"
proof (induction accts arbitrary: inb)
  case Nil
  then show ?case by simp
next
  case (Cons entry rest)
  obtain aid acct where entry: "entry = (aid, acct)" by (cases entry)
  from Cons.prems entry obtain emailIds where
    tok: "truthy (token acct)" and ids: "gmailIds env aid = Inr emailIds"
    and seen: "composeId uid aid ` set emailIds \<subseteq> set ks"
    by (auto simp: listed_def)
  have none: "filter (\<lambda>emailId. composeId uid aid emailId \<notin> set ks) emailIds = []"
    using seen by (auto simp: filter_empty_conv)
  from Cons.IH [of "inb @ map (composeId uid aid) emailIds"] Cons.prems
  obtain inb' where "importAccounts uid env clk (Some ks) rest
      (inb @ map (composeId uid aid) emailIds) newIds w = (Inr (inb', newIds), w)"
    by auto
  then show ?case
    by (simp add: entry tok ids none)
qed

text \<open>
  Claim C6. The remote side is the same for both runs (\<open>env\<close>); the clock may differ.
  If a run of \<^verbatim>\<open>importNewEmails\<close> completes, the next run completes as well, leaves the
  index's \<^verbatim>\<open>ids\<close> as the first run left them, leaves every message document as it
  was, fetches no message and writes no message document.
\<close>

theorem import_idempotent:
  assumes "importNewEmails uid env clk w0 = (Inr (), w1)"
  shows "\<exists>w2. importNewEmails uid env clk' w1 = (Inr (), w2)
           \<and> map_option ids (indexOf uid w2) = map_option ids (indexOf uid w1)
           \<and> mailDocs w2 = mailDocs w1
           \<and> fetchLog w2 = fetchLog w1
           \<and> mailWrites (writeLog w2) = mailWrites (writeLog w1)"
proof (cases "userAccounts env")
  case (Inl e)
  with assms show ?thesis by (simp add: importNewEmails_def Let_def)
next
  case (Inr accounts)
  let ?google = "filter (\<lambda>(aid, acct). acc_type acct = ''google'') accounts"
  show ?thesis
  proof (cases "?google = []")
    case True
    with Inr assms have "w1 = w0"
      by (simp add: importNewEmails_def Let_def)
    moreover from Inr True have "importNewEmails uid env clk' w0 = (Inr (), w0)"
      by (simp add: importNewEmails_def Let_def)
    ultimately show ?thesis by simp
  next
    case False
    define cachedIds where "cachedIds = (case userDocs w0 (cacheIdsKey uid) of
                         None \<Rightarrow> \<lparr>ids = Some [], inbox = Some [], deletables = Some [],
                                  newMail = Some [], summarizationQueue = Some [],
                                  updatedAt = None\<rparr>
                       | Some d \<Rightarrow> d)"
    from assms Inr False have sec: "googleSecrets env = None"
      by (auto simp: importNewEmails_def Let_def split: option.splits)
    from assms Inr False sec obtain inb newIds w' where
      acc: "importAccounts uid env clk (ids cachedIds) ?google [] [] w0 = (Inr (inb, newIds), w')"
      by (auto simp: importNewEmails_def Let_def cachedIds_def split: sum.splits prod.splits)
    from assms Inr False sec acc obtain known queue where
      k: "ids cachedIds = Some known" and q: "summarizationQueue cachedIds = Some queue"
      by (auto simp: importNewEmails_def Let_def cachedIds_def split: option.splits)
    define idx1 where "idx1 = \<lparr>ids = Some (known @ newIds), inbox = Some inb,
                                   deletables = None,
                                   newMail = Some ((case newMail cachedIds of None \<Rightarrow> [] | Some m \<Rightarrow> m) @ newIds),
                                   summarizationQueue = Some (queue @ newIds),
                                   updatedAt = Some (now clk)\<rparr>"
    have w1: "w1 = writeIndex (cacheIdsKey uid) idx1 w'"
      using assms Inr False sec acc k q
      by (simp add: importNewEmails_def Let_def cachedIds_def idx1_def)
    have i1: "userDocs w1 (cacheIdsKey uid) = Some idx1"
      by (simp add: w1 writeIndex_def)
    from importAccounts_Inr [OF acc]
    have "\<forall>entry \<in> set ?google. listed uid env (set (known @ newIds)) entry"
      by (simp add: k knownList_def)
    from importAccounts_all_known [OF this, of clk' "[]" "[]" w1]
    obtain inb2 where acc2:
      "importAccounts uid env clk' (Some (known @ newIds)) ?google [] [] w1 = (Inr (inb2, []), w1)"
      by auto
    define idx2 where "idx2 = \<lparr>ids = Some ((known @ newIds) @ []), inbox = Some inb2,
                                   deletables = None,
                                   newMail = Some ((case newMail idx1 of None \<Rightarrow> [] | Some m \<Rightarrow> m) @ []),
                                   summarizationQueue = Some ((queue @ newIds) @ []),
                                   updatedAt = Some (now clk')\<rparr>"
    have run2: "importNewEmails uid env clk' w1 = (Inr (), writeIndex (cacheIdsKey uid) idx2 w1)"
      using Inr False sec acc2
      by (simp add: importNewEmails_def Let_def i1 idx1_def idx2_def)
    have "map_option ids (indexOf uid (writeIndex (cacheIdsKey uid) idx2 w1))
            = map_option ids (indexOf uid w1)"
      by (simp add: indexOf_def i1 writeIndex_def idx1_def idx2_def)
    moreover have "mailDocs (writeIndex (cacheIdsKey uid) idx2 w1) = mailDocs w1"
      "fetchLog (writeIndex (cacheIdsKey uid) idx2 w1) = fetchLog w1"
      "mailWrites (writeLog (writeIndex (cacheIdsKey uid) idx2 w1)) = mailWrites (writeLog w1)"
      by (simp_all add: writeIndex_def mailWrites_def USER_COLLECTION_def MAIL_COLLECTION_def)
    ultimately show ?thesis
      using run2 by simp
  qed
qed


lemma sample_first_import:
  "importNewEmails sampleUser sampleEnv sampleClock emptyWorld = (Inr (), importedWorld)"
proof -
  have i: "composeId sampleUser ''google-1'' ''18c2a'' = invoiceId"
    by (simp add: composeId_def sampleUser_def invoiceId_def)
  have d: "newDocument sampleUser ''google-1'' ''18c2a'' sampleClock invoiceData = invoiceMail"
    by (simp add: invoiceMail_def)
  have n: "now sampleClock = 1767225600000"
    by (simp add: sampleClock_def)
  show ?thesis
    by (simp add: importNewEmails_def sampleEnv_def emptyWorld_def Let_def truthy_def i d n
        writeMail_def writeIndex_def importedWorld_def importedIndex_def)
qed

theorem import_idempotent_witness:
  "importNewEmails sampleUser sampleEnv sampleClock emptyWorld = (Inr (), importedWorld)
   \<and> (\<exists>w2. importNewEmails sampleUser sampleEnv laterClock importedWorld = (Inr (), w2)
           \<and> map_option ids (indexOf sampleUser w2) = Some (Some [invoiceId])
           \<and> mailDocs w2 = [invoiceId \<mapsto> invoiceMail]
           \<and> fetchLog w2 = [(''google-1'', ''18c2a'')]
           \<and> mailWrites (writeLog w2) = [(MAIL_COLLECTION, invoiceId)])"
proof -
  have a: "map_option ids (indexOf sampleUser importedWorld) = Some (Some [invoiceId])"
    "mailDocs importedWorld = [invoiceId \<mapsto> invoiceMail]"
    "fetchLog importedWorld = [(''google-1'', ''18c2a'')]"
    "mailWrites (writeLog importedWorld) = [(MAIL_COLLECTION, invoiceId)]"
    by (simp_all add: indexOf_def importedWorld_def importedIndex_def mailWrites_def
        MAIL_COLLECTION_def USER_COLLECTION_def)
  from import_idempotent [OF sample_first_import, of laterClock]
  show ?thesis
    unfolding a using sample_first_import by simp
qed

section \<open>Properties of the advanced scoring\<close>

lemma applyAdvancedScoring_returns:
  "msg_id email \<noteq> [] \<Longrightarrow> mail_from email = Some sender \<Longrightarrow>
     \<exists>scored. applyAdvancedScoring clk email = Inr scored"
  by (simp add: applyAdvancedScoring_def Let_def)









section \<open>Properties of archiving\<close>





section \<open>Properties of the view maintenance\<close>

lemma loadAll_Inr:
  assumes "loadAll is w = Inr loaded"
  shows "loaded = map (\<lambda>i. the (mailDocs w i)) is" and "\<forall>i \<in> set is. mailDocs w i \<noteq> None"
  using assms by (auto simp: loadAll_def list_ex_iff split: if_splits)

lemma sorted_desc_sort_key:
  fixes f :: "'a \<Rightarrow> real"
  shows "sorted_wrt (\<lambda>a b. a \<ge> b) (map f (sort_key (\<lambda>e. - f e) xs))"
proof -
  have "sorted (map (\<lambda>e. - f e) (sort_key (\<lambda>e. - f e) xs))"
    by (rule sorted_sort_key)
  then show ?thesis
    by (simp add: sorted_wrt_map sorted_map)
qed

text \<open>
  Claim C8. After a call of \<^verbatim>\<open>updateInbox\<close> that completes, the index holds an
  \<^verbatim>\<open>inbox\<close> list and a \<^verbatim>\<open>deletables\<close> list that are permutations of each other, and
  the message documents are unchanged. When the documents are stored under their own
  \<^verbatim>\<open>_id\<close> (as the import stores them), both lists are permutations of the list the call
  was given, \<^verbatim>\<open>inbox\<close> is in descending order of the messages' \<^verbatim>\<open>priorityScore\<close> and
  \<^verbatim>\<open>deletables\<close> in descending order of their \<^verbatim>\<open>deletableScore\<close> (a missing score
  counting as 0).
\<close>

theorem updateInbox_views:
  assumes "updateInbox uid clk cachedIds w = (Inr (), w')"
  shows "\<exists>old is ds.
           inbox cachedIds = Some old
           \<and> map_option inbox (indexOf uid w') = Some (Some is)
           \<and> map_option deletables (indexOf uid w') = Some (Some ds)
           \<and> mset is = mset ds
           \<and> mailDocs w' = mailDocs w
           \<and> ((\<forall>i e. mailDocs w i = Some e \<longrightarrow> msg_id e = i)
                \<longrightarrow> mset is = mset old
                    \<and> sorted_wrt (\<lambda>a b. a \<ge> b) (map (priorityOf w') is)
                    \<and> sorted_wrt (\<lambda>a b. a \<ge> b) (map (deletableOf w') ds))"
proof -
  from assms obtain old where old: "inbox cachedIds = Some old"
    by (auto simp: updateInbox_def split: option.splits)
  from assms old obtain loaded where loaded: "loadAll old w = Inr loaded"
    by (auto simp: updateInbox_def split: sum.splits)
  define es where "es = sort_key (\<lambda>e. - orZero (priorityScore e)) loaded"
  define fs where "fs = sort_key (\<lambda>e. - orZero (deletableScore e)) es"
  have w': "w' = writeIndex (cacheIdsKey uid)
                  (cachedIds\<lparr>inbox := Some (map msg_id es),
                             deletables := Some (map msg_id fs),
                             updatedAt := Some (now clk)\<rparr>) w"
    using assms old loaded by (simp add: updateInbox_def Let_def es_def fs_def)
  have i1: "map_option inbox (indexOf uid w') = Some (Some (map msg_id es))"
    and i2: "map_option deletables (indexOf uid w') = Some (Some (map msg_id fs))"
    and docs: "mailDocs w' = mailDocs w"
    by (simp_all add: w' indexOf_def writeIndex_def)
  have ms: "mset es = mset loaded" "mset fs = mset loaded"
    by (simp_all add: es_def fs_def)
  have perm: "mset (map msg_id es) = mset (map msg_id fs)"
    using ms by (metis mset_map)
  have keyed: "mset (map msg_id es) = mset old
       \<and> sorted_wrt (\<lambda>a b. a \<ge> b) (map (priorityOf w') (map msg_id es))
       \<and> sorted_wrt (\<lambda>a b. a \<ge> b) (map (deletableOf w') (map msg_id fs))"
    if k: "\<forall>i e. mailDocs w i = Some e \<longrightarrow> msg_id e = i"
  proof -
    have stored: "mailDocs w (msg_id e) = Some e" if "e \<in> set loaded" for e
    proof -
      from that loadAll_Inr [OF loaded] obtain i where "i \<in> set old" "e = the (mailDocs w i)"
        "mailDocs w i \<noteq> None"
        by auto
      then have "mailDocs w i = Some e" by auto
      with k show ?thesis by auto
    qed
    have ids: "map msg_id loaded = old"
    proof -
      have "map msg_id loaded = map (\<lambda>i. msg_id (the (mailDocs w i))) old"
        using loadAll_Inr(1) [OF loaded] by simp
      also have "\<dots> = map (\<lambda>i. i) old"
        using loadAll_Inr(2) [OF loaded] k by (intro map_cong) auto
      finally show ?thesis by simp
    qed
    have "mset (map msg_id es) = mset (map msg_id loaded)"
      using ms(1) by (metis mset_map)
    then have m: "mset (map msg_id es) = mset old"
      by (simp add: ids)
    have "set es = set loaded" "set fs = set loaded"
      using ms by (metis set_mset_mset)+
    then have p: "map (priorityOf w') (map msg_id es) = map (\<lambda>e. orZero (priorityScore e)) es"
      and d: "map (deletableOf w') (map msg_id fs) = map (\<lambda>e. orZero (deletableScore e)) fs"
      using stored by (auto simp: priorityOf_def deletableOf_def docs)
    show ?thesis
      unfolding p d using m by (simp add: es_def fs_def sorted_desc_sort_key)
  qed
  show ?thesis
    using old i1 i2 perm docs keyed by blast
qed


lemma twoMail_scores:
  "msg_id lowMail = ''0f8fad5b#google-1#aaa''" "msg_id highMail = ''0f8fad5b#google-1#bbb''"
  "priorityScore lowMail = Some 0.2" "priorityScore highMail = Some 0.7"
  "deletableScore lowMail = Some 0.9" "deletableScore highMail = Some 0.1"
  by (simp_all add: lowMail_def highMail_def)

lemma twoMail_loaded:
  "loadAll [''0f8fad5b#google-1#aaa'', ''0f8fad5b#google-1#bbb''] twoMailWorld
     = Inr [lowMail, highMail]"
  by (simp add: loadAll_def twoMailWorld_def)

lemma twoMail_updated:
  "updateInbox sampleUser sampleClock twoMailIndex twoMailWorld
     = (Inr (),
        writeIndex (cacheIdsKey sampleUser)
          (twoMailIndex\<lparr>inbox := Some [''0f8fad5b#google-1#bbb'', ''0f8fad5b#google-1#aaa''],
                        deletables := Some [''0f8fad5b#google-1#aaa'', ''0f8fad5b#google-1#bbb''],
                        updatedAt := Some (now sampleClock)\<rparr>) twoMailWorld)"
proof -
  have i: "inbox twoMailIndex = Some [''0f8fad5b#google-1#aaa'', ''0f8fad5b#google-1#bbb'']"
    by (simp add: twoMailIndex_def)
  show ?thesis
    by (simp add: updateInbox_def i twoMail_loaded Let_def twoMail_scores orZero_def)
qed

lemma twoMail_keyed: "\<forall>i e. mailDocs twoMailWorld i = Some e \<longrightarrow> msg_id e = i"
  by (simp add: twoMailWorld_def twoMail_scores)

theorem updateInbox_views_witness:
  "(\<exists>w'. updateInbox sampleUser sampleClock twoMailIndex twoMailWorld = (Inr (), w')
         \<and> getInbox sampleUser w'
             = Inr (Some [''0f8fad5b#google-1#bbb'', ''0f8fad5b#google-1#aaa''])
         \<and> getDeletables sampleUser w'
             = Inr [''0f8fad5b#google-1#aaa'', ''0f8fad5b#google-1#bbb'']
         \<and> map (priorityOf w') [''0f8fad5b#google-1#bbb'', ''0f8fad5b#google-1#aaa''] = [0.7, 0.2]
         \<and> map (deletableOf w') [''0f8fad5b#google-1#aaa'', ''0f8fad5b#google-1#bbb''] = [0.9, 0.1])"
proof -
  define w' where "w' = writeIndex (cacheIdsKey sampleUser)
          (twoMailIndex\<lparr>inbox := Some [''0f8fad5b#google-1#bbb'', ''0f8fad5b#google-1#aaa''],
                        deletables := Some [''0f8fad5b#google-1#aaa'', ''0f8fad5b#google-1#bbb''],
                        updatedAt := Some (now sampleClock)\<rparr>) twoMailWorld"
  have u: "updateInbox sampleUser sampleClock twoMailIndex twoMailWorld = (Inr (), w')"
    by (simp add: twoMail_updated w'_def)
  have docs: "mailDocs w' = mailDocs twoMailWorld"
    by (simp add: w'_def writeIndex_def)
  have v: "getInbox sampleUser w'
             = Inr (Some [''0f8fad5b#google-1#bbb'', ''0f8fad5b#google-1#aaa''])"
    "getDeletables sampleUser w' = Inr [''0f8fad5b#google-1#aaa'', ''0f8fad5b#google-1#bbb'']"
    by (simp_all add: w'_def writeIndex_def getInbox_def getDeletables_def)
  have s: "map (priorityOf w') [''0f8fad5b#google-1#bbb'', ''0f8fad5b#google-1#aaa''] = [0.7, 0.2]"
    "map (deletableOf w') [''0f8fad5b#google-1#aaa'', ''0f8fad5b#google-1#bbb''] = [0.9, 0.1]"
    by (simp_all add: priorityOf_def deletableOf_def docs twoMailWorld_def twoMail_scores orZero_def)
  have main: "updateInbox sampleUser sampleClock twoMailIndex twoMailWorld = (Inr (), w')
         \<and> getInbox sampleUser w'
             = Inr (Some [''0f8fad5b#google-1#bbb'', ''0f8fad5b#google-1#aaa''])
         \<and> getDeletables sampleUser w'
             = Inr [''0f8fad5b#google-1#aaa'', ''0f8fad5b#google-1#bbb'']
         \<and> map (priorityOf w') [''0f8fad5b#google-1#bbb'', ''0f8fad5b#google-1#aaa''] = [0.7, 0.2]
         \<and> map (deletableOf w') [''0f8fad5b#google-1#aaa'', ''0f8fad5b#google-1#bbb''] = [0.9, 0.1]"
    using u v s by (intro conjI)
  from updateInbox_views [OF u] twoMail_keyed main
  show ?thesis by (intro exI) assumption
qed

section \<open>The enrichment on a sample message\<close>

lemma acc_deletable_addCategory: "acc_deletable (addCategory found name a) = acc_deletable a"
  by (simp add: addCategory_def)

lemma acc_deletable_pushLabel: "acc_deletable (pushLabel found name a) = acc_deletable a"
  by (simp add: pushLabel_def)

lemma acc_deletable_addActionLabels: "acc_deletable (addActionLabels email a) = acc_deletable a"
  by (simp add: addActionLabels_def acc_deletable_pushLabel split: option.splits)

lemma acc_labels_addCategory:
  "set (acc_labels (addCategory found name a)) \<subseteq> insert name (set (acc_labels a))"
  by (auto simp: addCategory_def)

lemma categorySteps_deletable:
  "acc_deletable (categorySteps contacts email) =
     acc_deletable
       (addFinancial email
          (addCategory (mentions newsletterKeywords email) ''Newsletter''
             (addCategory (mentions promotionalKeywords email
                           \<or> (spamScore email > 0.3 \<and> spamScore email < 0.7)) ''Promotional''
                (addCategory (truthy (category email)) (orEmpty (category email))
                   \<lparr>acc_labels = (case labels email of None \<Rightarrow> [] | Some ls \<Rightarrow> ls),
                    detected = [], acc_deletable = deletableScore email\<rparr>))))"
  by (simp add: categorySteps_def Let_def acc_deletable_addCategory acc_deletable_pushLabel
      acc_deletable_addActionLabels)

lemma categorizeEmail_invoice_boost:
  assumes "msg_id email \<noteq> []"
    and "mentions financialKeywords email" and "mentions invoiceKeywords email"
    and "''Financial'' \<notin> set (case labels email of None \<Rightarrow> [] | Some ls \<Rightarrow> ls)"
    and "category email \<noteq> Some ''Financial''"
  shows "categorizeEmail contacts email
           = Inr (email\<lparr>labels := Some (dedupe (acc_labels (categorySteps contacts email))),
                         deletableScore := Some (orZero (deletableScore email) + 0.4),
                         category := (if truthy (category email) then category email
                                      else case detected (categorySteps contacts email) of
                                             [] \<Rightarrow> category email
                                           | c # cs \<Rightarrow> Some c)\<rparr>)"
proof -
  define a0 where "a0 = \<lparr>acc_labels = (case labels email of None \<Rightarrow> [] | Some ls \<Rightarrow> ls),
                    detected = [], acc_deletable = deletableScore email\<rparr>"
  define a3 where "a3 = addCategory (mentions newsletterKeywords email) ''Newsletter''
             (addCategory (mentions promotionalKeywords email
                           \<or> (spamScore email > 0.3 \<and> spamScore email < 0.7)) ''Promotional''
                (addCategory (truthy (category email)) (orEmpty (category email)) a0))"
  have "set (acc_labels a3)
          \<subseteq> insert ''Newsletter'' (insert ''Promotional''
               (insert (orEmpty (category email)) (set (acc_labels a0))))"
    unfolding a3_def by (auto simp: addCategory_def)
  moreover have "orEmpty (category email) \<noteq> ''Financial''"
    using assms(5) by (cases "category email") (auto simp: orEmpty_def)
  ultimately have nf: "''Financial'' \<notin> set (acc_labels a3)"
    using assms(4) by (auto simp: a0_def)
  have "acc_deletable a3 = deletableScore email"
    by (simp add: a3_def a0_def acc_deletable_addCategory)
  with nf assms(2,3) have "acc_deletable (addFinancial email a3)
          = Some (orZero (deletableScore email) + 0.4)"
    by (simp add: addFinancial_def Let_def)
  then have "acc_deletable (categorySteps contacts email)
          = Some (orZero (deletableScore email) + 0.4)"
    by (simp add: categorySteps_deletable a3_def a0_def)
  with assms(1) show ?thesis
    by (simp add: categorizeEmail_def Let_def)
qed


lemma invoice_lower:
  "toLowerCase ''Invoice for March'' = ''invoice for march''"
  "toLowerCase ''Invoice 42'' = ''invoice 42''"
  "toLowerCase ''Notification'' = ''notification''"
  "toLowerCase ''Neutral'' = ''neutral''"
  by (simp_all add: toLowerCase_def toLowerChar_def)

lemma invoiceMail_fields:
  "msg_id invoiceMail = invoiceId"
  "mail_from invoiceMail = Some ''Acme Billing <billing@acme.com>''"
  "mail_to invoiceMail = Some ''me@home.org''"
  "title invoiceMail = Some ''Invoice 42''"
  "date invoiceMail = Some ''Mon, 22 Dec 2025 00:00:00 +0000''"
  "labels invoiceMail = None"
  "attachments invoiceMail = None"
  "sentiment invoiceMail = None"
  "decayApplied invoiceMail = False"
  "decayFactor invoiceMail = None"
  by (simp_all add: invoiceMail_def newDocument_def invoiceData_def invoiceId_def
      composeId_def sampleUser_def)

lemma invoiceId_nonempty: "invoiceId \<noteq> []"
  by (simp add: invoiceId_def)

lemma invoice_enriched:
  "\<exists>r. enrich sampleAi sampleContacts sampleClock invoiceMail = Inr r
       \<and> msg_id r = invoiceId
       \<and> importanceScore r = 0.5 \<and> spamScore r = 0 \<and> urgencyScore r = Some 0
       \<and> priorityScore r = Some 0.025 \<and> deletableScore r = Some 1.05
       \<and> sentiment r = Some ''Neutral'' \<and> date r = Some ''Mon, 22 Dec 2025 00:00:00 +0000''
       \<and> decayApplied r = False \<and> decayFactor r = None"
proof -
  define m1 where "m1 = invoiceMail\<lparr>autoSummary := Some ''Invoice for March'',
                        shortSummary := Some ''Invoice for March'',
                        actionItems := Some [], keyPeople := Some [], deadlines := Some [],
                        importanceScore := 0.5, spamScore := 0,
                        category := Some ''Notification'', sentiment := Some ''Neutral'',
                        enhancedAt := Some (now sampleClock)\<rparr>"
  have s1: "enhancedSummarize sampleAi sampleClock invoiceMail = Inr m1"
    by (simp add: enhancedSummarize_def sampleAi_def invoiceReply_def m1_def
        invoiceMail_fields invoiceId_nonempty)
  have f1: "msg_id m1 = invoiceId"
    "mail_from m1 = Some ''Acme Billing <billing@acme.com>''"
    "mail_to m1 = Some ''me@home.org''"
    "title m1 = Some ''Invoice 42''" "shortSummary m1 = Some ''Invoice for March''"
    "actionItems m1 = Some []" "deadlines m1 = Some []"
    "importanceScore m1 = 0.5" "spamScore m1 = 0"
    "category m1 = Some ''Notification''" "sentiment m1 = Some ''Neutral''"
    "labels m1 = None"
    by (simp_all add: m1_def invoiceMail_fields)
  have u: "urgencyPoints sampleClock m1 = 0"
    by (simp add: urgencyPoints_def f1 Let_def truthy_def orEmpty_def invoice_lower)
  have i: "adjustedImportance m1 ''Acme Billing <billing@acme.com>'' = 0.5"
    by (simp add: adjustedImportance_def f1 Let_def truthy_def orEmpty_def invoice_lower
        addressOf_def domainPart_def)
  have d: "deletablePoints m1 = 0.65"
    by (simp add: deletablePoints_def f1 Let_def truthy_def orEmpty_def fieldHas_def
        invoice_lower deletableCategories_def invoiceTerms_def)
  define m2 where "m2 = m1\<lparr>importanceScore := 0.5, deletableScore := Some 0.65,
                         urgencyScore := Some 0, priorityScore := Some 0.025,
                         priorityLabel := Some ''Minimal''\<rparr>"
  have s2: "applyAdvancedScoring sampleClock m1 = Inr m2"
    by (simp add: applyAdvancedScoring_def f1 invoiceId_nonempty Let_def u i d
        priorityLabelOf_def m2_def)
  have f2: "msg_id m2 = invoiceId"
    "title m2 = Some ''Invoice 42''" "shortSummary m2 = Some ''Invoice for March''"
    "category m2 = Some ''Notification''" "labels m2 = None"
    "deletableScore m2 = Some 0.65"
    by (simp_all add: m2_def f1)
  have fin: "mentions financialKeywords m2" "mentions invoiceKeywords m2"
    by (simp_all add: mentions_def f2 fieldHas_def truthy_def orEmpty_def invoice_lower
        financialKeywords_def invoiceKeywords_def)
  define m3 where "m3 = m2\<lparr>labels := Some (dedupe (acc_labels (categorySteps sampleContacts m2))),
                         deletableScore := Some (orZero (deletableScore m2) + 0.4),
                         category := (if truthy (category m2) then category m2
                                      else case detected (categorySteps sampleContacts m2) of
                                             [] \<Rightarrow> category m2
                                           | c # cs \<Rightarrow> Some c)\<rparr>"
  have s3: "categorizeEmail sampleContacts m2 = Inr m3"
    unfolding m3_def
    by (rule categorizeEmail_invoice_boost) (simp_all add: f2 fin invoiceId_nonempty)
  have f3: "msg_id m3 = invoiceId" "attachments m3 = None" "sentiment m3 = Some ''Neutral''"
    "importanceScore m3 = 0.5" "spamScore m3 = 0" "urgencyScore m3 = Some 0"
    "priorityScore m3 = Some 0.025" "deletableScore m3 = Some 1.05"
    "date m3 = Some ''Mon, 22 Dec 2025 00:00:00 +0000''"
    "decayApplied m3 = False" "decayFactor m3 = None"
    by (simp_all add: m3_def m2_def m1_def invoiceMail_fields orZero_def)
  have s4: "processAttachments m3 = Inr m3"
    by (simp add: processAttachments_def f3 invoiceId_nonempty)
  have s5: "applySentimentAnalysis sampleClock m3 = Inr m3"
    by (simp add: applySentimentAnalysis_def f3 invoiceId_nonempty truthy_def)
  have "enrich sampleAi sampleContacts sampleClock invoiceMail = Inr m3"
    by (simp add: enrich_def s1 s2 s3 s4 s5)
  with f3 show ?thesis by blast
qed


text \<open>
  Claim C1 does not hold of the code. A message titled \<^verbatim>\<open>Invoice 42\<close>, for which the
  enrichment client returns the category Notification, a spam score of 0 and an
  importance of 0.5, completes the five passes with a \<^verbatim>\<open>deletableScore\<close> of 1.05: the
  advanced scoring gives 0.3 + 0.35 and caps at 1, and the categorisation then adds 0.4
  for the invoice without a cap. The other four scores of the result are within [0, 1].
\<close>

theorem enrich_deletable_above_one:
  "\<exists>r. enrich sampleAi sampleContacts sampleClock invoiceMail = Inr r
       \<and> importanceScore r = 0.5 \<and> spamScore r = 0 \<and> urgencyScore r = Some 0
       \<and> priorityScore r = Some 0.025 \<and> deletableScore r = Some 1.05
       \<and> (1::real) < 1.05"
  using invoice_enriched by auto

lemma agedMail_fields:
  "msg_id agedMail = invoiceId" "sentiment agedMail = Some ''Neutral''"
  "date agedMail = Some ''Mon, 22 Dec 2025 00:00:00 +0000''"
  "priorityScore agedMail = Some 0.5" "decayApplied agedMail = False"
  "decayFactor agedMail = None"
  by (simp_all add: agedMail_def invoiceMail_fields)

text \<open>
  Claim C2 does not hold of the code. A message dated ten days before now, whose
  \<^verbatim>\<open>sentiment\<close> is set, leaves \<^verbatim>\<open>applySentimentAnalysis\<close> as it entered it: the
  priority is not multiplied, and neither \<^verbatim>\<open>decayFactor\<close> nor \<^verbatim>\<open>decayApplied\<close> is
  recorded. The method returns before the decay block.
\<close>

theorem decay_skipped_when_sentiment_set:
  "ageInDays sampleClock agedMail = Some 10
   \<and> sentiment agedMail = Some ''Neutral''
   \<and> applySentimentAnalysis sampleClock agedMail = Inr agedMail
   \<and> priorityScore agedMail = Some 0.5
   \<and> decayApplied agedMail = False \<and> decayFactor agedMail = None"
  by (simp add: ageInDays_def applySentimentAnalysis_def agedMail_fields invoiceId_nonempty
      truthy_def sampleClock_def msPerDay_def)

lemma tryEnrich_fails: "\<exists>e. tryEnrich ai contacts clk email = Inl e"
  by (simp add: tryEnrich_def processedEmails_push_def split: sum.splits)

lemma invoice_tryEnrich:
  "tryEnrich sampleAi sampleContacts sampleClock invoiceMail
     = Inl (ReferenceError ''processedEmails'')"
  using invoice_enriched by (auto simp: tryEnrich_def processedEmails_push_def)

lemma imported_index: "userDocs importedWorld (cacheIdsKey sampleUser) = Some importedIndex"
  "mailDocs importedWorld invoiceId = Some invoiceMail"
  by (simp_all add: importedWorld_def)

lemma single_batch: "batches [i] = [[i]]"
  by (simp add: BATCH_SIZE_def)

lemma single_dedupe: "dedupe [i] = [i]"
  by (simp add: dedupe_def set_add_def)

lemma imported_processEmail:
  "processEmail sampleAi sampleContacts sampleClock (Some invoiceMail)
     ([invoiceId], importedWorld)
   = (None, [invoiceId],
      importedWorld\<lparr>errorLog := [(invoiceId, ReferenceError ''processedEmails'')]\<rparr>)"
proof -
  have lg: "errorLog importedWorld = []"
    by (simp add: importedWorld_def)
  show ?thesis
    by (simp add: processEmail_def invoice_tryEnrich invoiceMail_fields lg)
qed

text \<open>
  Claim C3 does not hold of the code. The sample message completes the five passes, and
  still \<^verbatim>\<open>supplySummaries\<close> stores the index with the message's ID in the queue (and
  in \<^verbatim>\<open>ids\<close>): the statement after the passes throws a \<^verbatim>\<open>ReferenceError\<close>, which the
  loop catches and logs as a failure of the message, so the deletion from the set of
  remaining IDs is never reached. The stored message document is still the imported one.
\<close>

theorem supplySummaries_keeps_enriched_in_queue:
  "(\<exists>r. enrich sampleAi sampleContacts sampleClock invoiceMail = Inr r)
   \<and> map_option summarizationQueue (indexOf sampleUser importedWorld) = Some (Some [invoiceId])
   \<and> fst (supplySummaries sampleUser sampleAi sampleContacts sampleClock importedWorld) = Inr ()
   \<and> map_option summarizationQueue
        (indexOf sampleUser
           (snd (supplySummaries sampleUser sampleAi sampleContacts sampleClock importedWorld)))
       = Some (Some [invoiceId])
   \<and> map_option ids
        (indexOf sampleUser
           (snd (supplySummaries sampleUser sampleAi sampleContacts sampleClock importedWorld)))
       = Some (Some [invoiceId])
   \<and> errorLog (snd (supplySummaries sampleUser sampleAi sampleContacts sampleClock importedWorld))
       = [(invoiceId, ReferenceError ''processedEmails'')]
   \<and> mailDocs (snd (supplySummaries sampleUser sampleAi sampleContacts sampleClock importedWorld))
        invoiceId
       = Some invoiceMail"
proof -
  have e: "\<exists>r. enrich sampleAi sampleContacts sampleClock invoiceMail = Inr r"
    using invoice_enriched by blast
  have q: "summarizationQueue importedIndex = Some [invoiceId]"
    "inbox importedIndex = Some [invoiceId]" "ids importedIndex = Some [invoiceId]"
    by (simp_all add: importedIndex_def)
  have l: "loadAll [invoiceId]
             (importedWorld\<lparr>errorLog := [(invoiceId, ReferenceError ''processedEmails'')]\<rparr>)
           = Inr [invoiceMail]"
    by (simp add: loadAll_def invoiceId_nonempty imported_index)
  have s: "supplySummaries sampleUser sampleAi sampleContacts sampleClock importedWorld
       = (Inr (),
          writeIndex (cacheIdsKey sampleUser)
            (importedIndex\<lparr>summarizationQueue := Some [invoiceId],
                            inbox := Some [invoiceId], deletables := Some [invoiceId],
                            updatedAt := Some (now sampleClock)\<rparr>)
            (importedWorld\<lparr>errorLog := [(invoiceId, ReferenceError ''processedEmails'')]\<rparr>))"
    by (simp add: supplySummaries_def imported_index q invoiceId_nonempty single_batch
        single_dedupe imported_processEmail updateInbox_def l Let_def invoiceMail_fields
        del: batches.simps)
  show ?thesis
    using e by (simp add: s indexOf_def imported_index q writeIndex_def)
qed

section \<open>Further properties of the enrichment\<close>

lemma processEmail_remaining:
  "fst (snd (processEmail ai contacts clk loaded (queue, w))) = queue"
proof (cases loaded)
  case None
  then show ?thesis by (simp add: processEmail_def)
next
  case (Some email)
  from tryEnrich_fails obtain e where "tryEnrich ai contacts clk email = Inl e" by blast
  with Some show ?thesis by (simp add: processEmail_def)
qed

lemma processBatch_remaining:
  "fst (snd (processBatch ai contacts clk ls (queue, w))) = queue"
proof (induction ls arbitrary: w)
  case Nil
  then show ?case by simp
next
  case (Cons loaded rest)
  obtain r1 q1 w1 where p: "processEmail ai contacts clk loaded (queue, w) = (r1, q1, w1)"
    by (cases "processEmail ai contacts clk loaded (queue, w)") auto
  from processEmail_remaining [of ai contacts clk loaded queue w] p have q1: "q1 = queue"
    by simp
  obtain r2 q2 w2 where b: "processBatch ai contacts clk rest (queue, w1) = (r2, q2, w2)"
    by (cases "processBatch ai contacts clk rest (queue, w1)") auto
  from Cons.IH [of w1] b have "q2 = queue" by simp
  with p q1 b show ?case by simp
qed

lemma processBatches_remaining:
  "processBatches ai contacts clk bs (queue, w) = (Inr queue', w') \<Longrightarrow> queue' = queue"
proof (induction bs arbitrary: w)
  case Nil
  then show ?case by simp
next
  case (Cons batchIds rest)
  obtain r1 q1 w1 where b:
    "processBatch ai contacts clk (map (\<lambda>i. mailDocs w i) batchIds) (queue, w) = (r1, q1, w1)"
    by (cases "processBatch ai contacts clk (map (\<lambda>i. mailDocs w i) batchIds) (queue, w)") auto
  from processBatch_remaining [of ai contacts clk "map (\<lambda>i. mailDocs w i) batchIds" queue w] b
  have q1: "q1 = queue" by simp
  from Cons.prems b q1 have "processBatches ai contacts clk rest (queue, w1) = (Inr queue', w')"
    by (auto split: if_splits option.splits)
  then show ?case by (rule Cons.IH)
qed

text \<open>
  Beyond the sample: whenever \<^verbatim>\<open>supplySummaries\<close> completes on a non-empty queue, the
  queue it stores is the queue it read, made unique. No ID leaves the queue.
\<close>

theorem supplySummaries_queue_kept:
  assumes "indexOf uid w = Some cachedIds"
    and "summarizationQueue cachedIds = Some queue" and "queue \<noteq> []"
    and "supplySummaries uid ai contacts clk w = (Inr (), w')"
  shows "map_option summarizationQueue (indexOf uid w') = Some (Some (dedupe queue))"
proof -
  from assms obtain remaining w1 where
    b: "processBatches ai contacts clk (batches queue) (dedupe queue, w) = (Inr remaining, w1)"
    and u: "updateInbox uid clk (cachedIds\<lparr>summarizationQueue := Some remaining\<rparr>) w1
              = (Inr (), w')"
    by (auto simp: supplySummaries_def indexOf_def split: sum.splits prod.splits
        simp del: batches.simps)
  from b have r: "remaining = dedupe queue" by (rule processBatches_remaining)
  from u have "map_option summarizationQueue (indexOf uid w') = Some (Some remaining)"
    by (auto simp: updateInbox_def Let_def indexOf_def writeIndex_def
        split: option.splits sum.splits)
  with r show ?thesis by simp
qed

theorem supplySummaries_queue_kept_witness:
  "map_option summarizationQueue
     (indexOf sampleUser
        (snd (supplySummaries sampleUser sampleAi sampleContacts sampleClock importedWorld)))
   = Some (Some (dedupe [invoiceId]))"
proof -
  have i: "indexOf sampleUser importedWorld = Some importedIndex"
    by (simp add: indexOf_def imported_index)
  have q: "summarizationQueue importedIndex = Some [invoiceId]" "[invoiceId] \<noteq> []"
    by (simp_all add: importedIndex_def)
  have l: "loadAll [invoiceId]
             (importedWorld\<lparr>errorLog := [(invoiceId, ReferenceError ''processedEmails'')]\<rparr>)
           = Inr [invoiceMail]"
    by (simp add: loadAll_def invoiceId_nonempty imported_index)
  have "fst (supplySummaries sampleUser sampleAi sampleContacts sampleClock importedWorld) = Inr ()"
    by (simp add: supplySummaries_def imported_index importedIndex_def invoiceId_nonempty
        single_batch single_dedupe imported_processEmail updateInbox_def l Let_def
        del: batches.simps)
  then have s: "supplySummaries sampleUser sampleAi sampleContacts sampleClock importedWorld
      = (Inr (), snd (supplySummaries sampleUser sampleAi sampleContacts sampleClock importedWorld))"
    by (metis prod.collapse)
  show ?thesis
    by (rule supplySummaries_queue_kept [OF i q s])
qed

text \<open>
  The decay block itself, reached when the message has no \<^verbatim>\<open>sentiment\<close>: for a message
  older than 3 days with a priority \<open>p\<close>, the priority becomes the larger of
  \<open>p * exp (- 0.1 * (age - 3))\<close> and \<open>p * 0.3\<close>, and the factor and the flag are
  recorded.
\<close>

theorem decay_applied_without_sentiment:
  assumes "msg_id email \<noteq> []" and "\<not> truthy (sentiment email)"
    and "ageInDays clk email = Some age" and "age > 3"
    and "priorityScore email = Some p"
  shows "\<exists>r. applySentimentAnalysis clk email = Inr r
           \<and> priorityScore r = Some (max (p * exp (- 0.1 * (age - 3))) (p * 0.3))
           \<and> decayFactor r = Some (exp (- 0.1 * (age - 3)))
           \<and> decayApplied r"
proof -
  have a: "ageInDays clk (e\<lparr>sentimentMetadata := sm, sentiment := s, urgencyScore := u,
                            importanceScore := i\<rparr>) = ageInDays clk e" for e sm s u i
    by (simp add: ageInDays_def)
  show ?thesis
    using assms by (simp add: applySentimentAnalysis_def Let_def applyDecay_def a)
qed

theorem decay_applied_without_sentiment_witness:
  "\<exists>r. applySentimentAnalysis sampleClock (invoiceMail\<lparr>priorityScore := Some 0.5\<rparr>) = Inr r
       \<and> priorityScore r = Some (max (0.5 * exp (- 0.1 * (10 - 3))) (0.5 * 0.3))
       \<and> decayFactor r = Some (exp (- 0.1 * (10 - 3)))
       \<and> decayApplied r"
proof -
  have f: "msg_id (invoiceMail\<lparr>priorityScore := Some 0.5\<rparr>) \<noteq> []"
    "\<not> truthy (sentiment (invoiceMail\<lparr>priorityScore := Some 0.5\<rparr>))"
    "priorityScore (invoiceMail\<lparr>priorityScore := Some 0.5\<rparr>) = Some 0.5"
    by (simp_all add: invoiceMail_fields invoiceId_nonempty truthy_def)
  have a: "ageInDays sampleClock (invoiceMail\<lparr>priorityScore := Some 0.5\<rparr>) = Some 10"
    "(10::real) > 3"
    by (simp_all add: ageInDays_def invoiceMail_fields sampleClock_def msPerDay_def)
  show ?thesis
    by (rule decay_applied_without_sentiment [OF f(1) f(2) a f(3)])
qed

lemma urgencyPoints_nonneg: "0 \<le> urgencyPoints clk email"
  by (simp add: urgencyPoints_def Let_def)

lemma deletablePoints_nonneg: "0 \<le> spamScore email \<Longrightarrow> 0 \<le> deletablePoints email"
  by (simp add: deletablePoints_def Let_def)

lemma adjustedImportance_bounds:
  "0 \<le> importanceScore email \<Longrightarrow> importanceScore email \<le> 1
     \<Longrightarrow> 0 \<le> adjustedImportance email sender \<and> adjustedImportance email sender \<le> 1"
  by (simp add: adjustedImportance_def Let_def)

lemma scoring_bounds:
  assumes "applyAdvancedScoring clk email = Inr r"
    and "0 \<le> importanceScore email" and "importanceScore email \<le> 1"
    and "0 \<le> spamScore email"
  shows "0 \<le> importanceScore r \<and> importanceScore r \<le> 1 \<and> spamScore r = spamScore email
         \<and> (\<exists>u. urgencyScore r = Some u \<and> 0 \<le> u \<and> u \<le> 1)
         \<and> (\<exists>p. priorityScore r = Some p \<and> 0 \<le> p \<and> p \<le> 1)
         \<and> (\<exists>d. deletableScore r = Some d \<and> 0 \<le> d \<and> d \<le> 1)"
proof -
  from assms(1) obtain sender where s: "msg_id email \<noteq> []" "mail_from email = Some sender"
    by (auto simp: applyAdvancedScoring_def split: if_splits option.splits)
  note b = adjustedImportance_bounds [OF assms(2,3), of sender]
    urgencyPoints_nonneg [of clk email] deletablePoints_nonneg [OF assms(4)]
  from assms(1) s b show ?thesis
    by (auto simp: applyAdvancedScoring_def Let_def)
qed

lemma addFinancial_deletable:
  "acc_deletable (addFinancial email a) = acc_deletable a
   \<or> acc_deletable (addFinancial email a) = Some (orZero (acc_deletable a) + 0.4)"
  by (simp add: addFinancial_def Let_def)

lemma categorize_bounds:
  assumes "categorizeEmail contacts email = Inr r"
  shows "importanceScore r = importanceScore email \<and> spamScore r = spamScore email
         \<and> urgencyScore r = urgencyScore email \<and> priorityScore r = priorityScore email
         \<and> (deletableScore r = deletableScore email
             \<or> deletableScore r = Some (orZero (deletableScore email) + 0.4))"
proof -
  have "acc_deletable (categorySteps contacts email) = deletableScore email
        \<or> acc_deletable (categorySteps contacts email)
            = Some (orZero (deletableScore email) + 0.4)"
    unfolding categorySteps_deletable
    using addFinancial_deletable
      [of email "addCategory (mentions newsletterKeywords email) ''Newsletter''
             (addCategory (mentions promotionalKeywords email
                           \<or> (spamScore email > 0.3 \<and> spamScore email < 0.7)) ''Promotional''
                (addCategory (truthy (category email)) (orEmpty (category email))
                   \<lparr>acc_labels = (case labels email of None \<Rightarrow> [] | Some ls \<Rightarrow> ls),
                    detected = [], acc_deletable = deletableScore email\<rparr>))"]
    by (simp add: acc_deletable_addCategory)
  moreover from assms have "r = email\<lparr>labels := Some (dedupe (acc_labels (categorySteps contacts email))),
                      deletableScore := acc_deletable (categorySteps contacts email),
                      category := (if truthy (category email) then category email
                                   else case detected (categorySteps contacts email) of
                                          [] \<Rightarrow> category email
                                        | c # cs \<Rightarrow> Some c)\<rparr>"
    by (simp add: categorizeEmail_def Let_def split: if_splits)
  ultimately show ?thesis by auto
qed

lemma attachments_bounds:
  assumes "processAttachments email = Inr r"
    and "0 \<le> importanceScore email" and "importanceScore email \<le> 1"
    and "0 \<le> spamScore email" and "spamScore email \<le> 1"
  shows "0 \<le> importanceScore r \<and> importanceScore r \<le> 1
         \<and> 0 \<le> spamScore r \<and> spamScore r \<le> 1
         \<and> urgencyScore r = urgencyScore email \<and> priorityScore r = priorityScore email
         \<and> (deletableScore r = deletableScore email
             \<or> deletableScore r = Some (orZero (deletableScore email) + 0.3))"
proof -
  from assms(1) have id: "msg_id email \<noteq> []"
    by (auto simp: processAttachments_def split: if_splits)
  show ?thesis
  proof (cases "attachments email = None \<or> attachments email = Some []")
    case True
    with assms(1) id have "r = email"
      by (auto simp: processAttachments_def)
    with assms show ?thesis by simp
  next
    case False
    then obtain atts where atts: "attachments email = Some atts" "atts \<noteq> []"
      by (cases "attachments email") auto
    define meta where "meta = fold noteAttachment atts
                         \<lparr>att_count = length atts, types = [], totalSize = 0,
                          hasDocuments = False, hasImages = False, hasSpreadsheets = False,
                          hasPresentations = False, hasArchives = False,
                          hasExecutables = False\<rparr>"
    have imp: "importanceScore r =
              (if (hasDocuments meta \<or> hasSpreadsheets meta \<or> hasPresentations meta)
                  \<and> importanceScore email < 0.7
               then min (importanceScore email + 0.15) 0.85 else importanceScore email)"
      and spam: "spamScore r =
              (if hasExecutables meta then min (spamScore email + 0.2) 1 else spamScore email)"
      and del: "deletableScore r =
              (if hasInvoiceAttachment atts then Some (orZero (deletableScore email) + 0.3)
               else deletableScore email)"
      and same: "urgencyScore r = urgencyScore email" "priorityScore r = priorityScore email"
      using assms(1) id atts unfolding processAttachments_def Let_def meta_def
      by (auto split del: if_split)
    from imp assms(2,3) have "0 \<le> importanceScore r \<and> importanceScore r \<le> 1"
      by (simp split: if_splits)
    moreover from spam assms(4,5) have "0 \<le> spamScore r \<and> spamScore r \<le> 1"
      by (simp split: if_splits)
    moreover from del have "deletableScore r = deletableScore email
             \<or> deletableScore r = Some (orZero (deletableScore email) + 0.3)"
      by (simp split: if_splits)
    ultimately show ?thesis using same by simp
  qed
qed

lemma decay_bounds:
  assumes "priorityScore analyzed = Some p" and "priorityScore original = Some p"
    and "0 \<le> p" and "p \<le> 1"
  shows "importanceScore (applyDecay clk original analyzed) = importanceScore analyzed
         \<and> spamScore (applyDecay clk original analyzed) = spamScore analyzed
         \<and> urgencyScore (applyDecay clk original analyzed) = urgencyScore analyzed
         \<and> deletableScore (applyDecay clk original analyzed) = deletableScore analyzed
         \<and> (\<exists>q. priorityScore (applyDecay clk original analyzed) = Some q \<and> 0 \<le> q \<and> q \<le> 1)"
proof (cases "ageInDays clk analyzed")
  case None
  with assms show ?thesis by (simp add: applyDecay_def)
next
  case (Some age)
  show ?thesis
  proof (cases "age > 3")
    case False
    with Some assms show ?thesis by (simp add: applyDecay_def)
  next
    case True
    then have "exp (- 0.1 * (age - 3)) \<le> 1" by simp
    with assms have "p * exp (- 0.1 * (age - 3)) \<le> 1" "0 \<le> p * exp (- 0.1 * (age - 3))"
      "p * 0.3 \<le> 1"
      by (simp_all add: mult_le_one)
    with Some True assms show ?thesis
      by (simp add: applyDecay_def Let_def)
  qed
qed

lemma sentiment_bounds:
  assumes "applySentimentAnalysis clk email = Inr r"
    and "0 \<le> importanceScore email" and "importanceScore email \<le> 1"
    and "urgencyScore email = Some u" and "0 \<le> u" and "u \<le> 1"
    and "priorityScore email = Some p" and "0 \<le> p" and "p \<le> 1"
  shows "0 \<le> importanceScore r \<and> importanceScore r \<le> 1
         \<and> spamScore r = spamScore email \<and> deletableScore r = deletableScore email
         \<and> (\<exists>v. urgencyScore r = Some v \<and> 0 \<le> v \<and> v \<le> 1)
         \<and> (\<exists>q. priorityScore r = Some q \<and> 0 \<le> q \<and> q \<le> 1)"
proof (cases "truthy (sentiment email)")
  case True
  with assms show ?thesis
    by (auto simp: applySentimentAnalysis_def split: if_splits)
next
  case False
  from assms(1) have id: "msg_id email \<noteq> []"
    by (auto simp: applySentimentAnalysis_def split: if_splits)
  obtain analyzed where r: "r = applyDecay clk email analyzed"
    and a: "priorityScore analyzed = Some p" "spamScore analyzed = spamScore email"
      "deletableScore analyzed = deletableScore email"
      "0 \<le> importanceScore analyzed \<and> importanceScore analyzed \<le> 1"
      "\<exists>v. urgencyScore analyzed = Some v \<and> 0 \<le> v \<and> v \<le> 1"
    using assms False id
    by (auto simp: applySentimentAnalysis_def Let_def)
  from decay_bounds [OF a(1) assms(7,8,9), of clk] a r show ?thesis
    by auto
qed

text \<open>
  What holds of the scores after the five passes: importance, spam, urgency and priority
  are within [0, 1]; the deletable score is at least 0 and at most 1.7 (1 after the
  advanced scoring, 0.4 more from the categorisation, 0.3 more from the attachments).
\<close>

theorem enrich_bounded_scores:
  assumes "enrich ai contacts clk email = Inr r"
  shows "0 \<le> importanceScore r \<and> importanceScore r \<le> 1
         \<and> 0 \<le> spamScore r \<and> spamScore r \<le> 1
         \<and> (\<exists>u. urgencyScore r = Some u \<and> 0 \<le> u \<and> u \<le> 1)
         \<and> (\<exists>p. priorityScore r = Some p \<and> 0 \<le> p \<and> p \<le> 1)
         \<and> (\<exists>d. deletableScore r = Some d \<and> 0 \<le> d \<and> d \<le> 1.7)"
proof -
  from assms obtain m1 m2 m3 m4 where
    s1: "enhancedSummarize ai clk email = Inr m1"
    and s2: "applyAdvancedScoring clk m1 = Inr m2"
    and s3: "categorizeEmail contacts m2 = Inr m3"
    and s4: "processAttachments m3 = Inr m4"
    and s5: "applySentimentAnalysis clk m4 = Inr r"
    by (auto simp: enrich_def split: sum.splits)
  from s1 have b1: "0 \<le> importanceScore m1" "importanceScore m1 \<le> 1"
    "0 \<le> spamScore m1" "spamScore m1 \<le> 1"
    by (auto simp: enhancedSummarize_def split: if_splits ai_reply.splits)
  from scoring_bounds [OF s2 b1(1,2,3)] b1 obtain u p d where
    b2: "0 \<le> importanceScore m2" "importanceScore m2 \<le> 1"
    "0 \<le> spamScore m2" "spamScore m2 \<le> 1"
    "urgencyScore m2 = Some u" "0 \<le> u" "u \<le> 1"
    "priorityScore m2 = Some p" "0 \<le> p" "p \<le> 1"
    "deletableScore m2 = Some d" "0 \<le> d" "d \<le> 1"
    by auto
  from categorize_bounds [OF s3] b2 obtain d3 where
    b3: "0 \<le> importanceScore m3" "importanceScore m3 \<le> 1"
    "0 \<le> spamScore m3" "spamScore m3 \<le> 1"
    "urgencyScore m3 = Some u" "priorityScore m3 = Some p"
    "deletableScore m3 = Some d3" "0 \<le> d3" "d3 \<le> 1.4"
    by (auto simp: orZero_def)
  from attachments_bounds [OF s4 b3(1,2,3,4)] b3 obtain d4 where
    b4: "0 \<le> importanceScore m4" "importanceScore m4 \<le> 1"
    "0 \<le> spamScore m4" "spamScore m4 \<le> 1"
    "urgencyScore m4 = Some u" "priorityScore m4 = Some p"
    "deletableScore m4 = Some d4" "0 \<le> d4" "d4 \<le> 1.7"
    by (auto simp: orZero_def)
  from sentiment_bounds [OF s5 b4(1,2,5) b2(6,7) b4(6) b2(9,10)] b4
  show ?thesis by auto
qed

theorem enrich_bounded_scores_witness:
  "\<exists>r. enrich sampleAi sampleContacts sampleClock invoiceMail = Inr r
       \<and> 0 \<le> importanceScore r \<and> importanceScore r \<le> 1
       \<and> 0 \<le> spamScore r \<and> spamScore r \<le> 1
       \<and> (\<exists>u. urgencyScore r = Some u \<and> 0 \<le> u \<and> u \<le> 1)
       \<and> (\<exists>p. priorityScore r = Some p \<and> 0 \<le> p \<and> p \<le> 1)
       \<and> (\<exists>d. deletableScore r = Some d \<and> 0 \<le> d \<and> d \<le> 1.7)"
proof -
  from invoice_enriched obtain r where
    e: "enrich sampleAi sampleContacts sampleClock invoiceMail = Inr r"
    by blast
  from conjI [OF e enrich_bounded_scores [OF e]] show ?thesis
    by (rule exI)
qed

end
